theory Spec2Isabelle
  imports Complex_Main "HOL-Library.AList"
begin

section \<open>JavaScript values\<close>

text \<open>
  The values that flow through the memory search manager and the Engram adapter are plain
  JavaScript data: resolved configuration objects, request payloads and parsed adapter
  responses. An object is the list of its own properties in creation order (enumeration
  order is \<open>property_order\<close> below); a number is a finite rational or one of the three
  non-finite doubles.
\<close>

datatype jsnum = Finite rat | NaN | PosInfinity | NegInfinity

datatype jsvalue =
    JUndefined
  | JNull
  | JBool bool
  | JNum jsnum
  | JStr string
  | JArr "jsvalue list"
  | JObj "(string \<times> jsvalue) list"

text \<open>
  The built-ins of the JavaScript runtime that the code calls and whose results depend on
  the engine (ICU collation, number formatting, the JSON grammar) are parameters of the model.
  \<open>localeCompare a b\<close> is \<^verbatim>\<open>a.localeCompare(b)\<close>; \<open>JSON_parse\<close> returns \<open>None\<close> where
  \<^verbatim>\<open>JSON.parse\<close> throws a SyntaxError; \<open>ObjectToString\<close> is the conversion of an array or
  object to a string primitive, \<open>None\<close> where it throws a TypeError.
\<close>

record runtime =
  localeCompare :: "string \<Rightarrow> string \<Rightarrow> int"
  JSON_stringify :: "jsvalue \<Rightarrow> string"
  JSON_parse :: "string \<Rightarrow> jsvalue option"
  StringToNumber :: "string \<Rightarrow> jsnum"
  NumberToString :: "jsnum \<Rightarrow> string"
  ObjectToString :: "jsvalue \<Rightarrow> string option"

subsection \<open>Property order, \<^verbatim>\<open>Object.keys\<close>, \<^verbatim>\<open>Object.fromEntries\<close>\<close>

definition is_digit :: "char \<Rightarrow> bool" where
  "is_digit c = (48 \<le> (of_char c :: nat) \<and> (of_char c :: nat) \<le> 57)"

definition dec_value :: "string \<Rightarrow> nat" where
  "dec_value s = foldl (\<lambda>n c. 10 * n + ((of_char c :: nat) - 48)) 0 s"

text \<open>An array index is the canonical decimal form of an integer below \<open>2^32 - 1 = 4294967295\<close>.\<close>

definition is_array_index :: "string \<Rightarrow> bool" where
  "is_array_index s =
     (s \<noteq> [] \<and> list_all is_digit s \<and> (s = ''0'' \<or> hd s \<noteq> CHR ''0'') \<and>
      length s \<le> 10 \<and> dec_value s < 4294967295)"

text \<open>
  The own property keys of an ordinary object are enumerated with the array indices first,
  in ascending numeric order, and then the other string keys in creation order.
\<close>

definition property_order :: "(string \<times> 'a) list \<Rightarrow> (string \<times> 'a) list" where
  "property_order fs =
     sort_key (\<lambda>kv. dec_value (fst kv)) (filter (\<lambda>kv. is_array_index (fst kv)) fs) @
     filter (\<lambda>kv. \<not> is_array_index (fst kv)) fs"

definition Object_keys :: "(string \<times> jsvalue) list \<Rightarrow> string list" where
  "Object_keys fs = map fst (property_order fs)"

text \<open>\<^verbatim>\<open>value[key]\<close>: the property's value, \<^verbatim>\<open>undefined\<close> when the object has no such property.\<close>

definition get_prop :: "(string \<times> jsvalue) list \<Rightarrow> string \<Rightarrow> jsvalue" where
  "get_prop fs key = (case map_of fs key of Some v \<Rightarrow> v | None \<Rightarrow> JUndefined)"

text \<open>
  \<^verbatim>\<open>Object.fromEntries\<close> defines the entries one after the other on a fresh object: a new key
  is appended, a repeated key keeps its place and takes the later value.
\<close>

definition Object_fromEntries :: "(string \<times> jsvalue) list \<Rightarrow> (string \<times> jsvalue) list" where
  "Object_fromEntries es = foldl (\<lambda>obj kv. AList.update (fst kv) (snd kv) obj) [] es"

subsection \<open>\<^verbatim>\<open>toSorted\<close> with a comparator\<close>

text \<open>
  \<^verbatim>\<open>Array.prototype.toSorted\<close> is a stable sort: elements that the comparator ties keep their
  original order. \<open>insort_cmp\<close> puts an element in front of the first one it does not
  exceed, so inserting from the right end gives the stable order.
\<close>

fun insort_cmp :: "(string \<Rightarrow> string \<Rightarrow> int) \<Rightarrow> string \<Rightarrow> string list \<Rightarrow> string list" where
  "insort_cmp cmp x [] = [x]"
| "insort_cmp cmp x (y # ys) = (if cmp x y \<le> 0 then x # y # ys else y # insort_cmp cmp x ys)"

definition toSorted :: "(string \<Rightarrow> string \<Rightarrow> int) \<Rightarrow> string list \<Rightarrow> string list" where
  "toSorted cmp xs = foldr (insort_cmp cmp) xs []"

section \<open>The cache fingerprint (search-manager)\<close>

lemma size_field: "(k, v) \<in> set fs \<Longrightarrow> size v < Suc (size_list (size_prod f size) fs)"
  by (induction fs) auto

lemma size_entry: "v \<in> set vs \<Longrightarrow> size v < Suc (size_list size vs)"
  by (induction vs) auto

lemma size_get_prop: "size (get_prop fs key) < Suc (size_list (size_prod f size) fs)"
proof (cases "map_of fs key")
  case None
  then show ?thesis by (simp add: get_prop_def)
next
  case (Some v)
  then have "(key, v) \<in> set fs" by (rule map_of_SomeD)
  with Some show ?thesis by (simp add: get_prop_def size_field)
qed

text \<open>
  \<^verbatim>\<open>
  function sortValue(value: unknown): unknown {
    if (Array.isArray(value)) {
      return value.map((entry) => sortValue(entry));
    }
    if (value && typeof value === "object") {
      const sortedEntries = Object.keys(value as Record<string, unknown>)
        .toSorted((a, b) => a.localeCompare(b))
        .map((key) => [key, sortValue((value as Record<string, unknown>)[key])]);
      return Object.fromEntries(sortedEntries);
    }
    return value;
  }
  \<close>
\<close>

function sortValue :: "runtime \<Rightarrow> jsvalue \<Rightarrow> jsvalue" where
  "sortValue rt (JArr entries) = JArr (map (\<lambda>entry. sortValue rt entry) entries)"
| "sortValue rt (JObj fs) =
     JObj (Object_fromEntries
       (map (\<lambda>key. (key, sortValue rt (get_prop fs key)))
         (toSorted (localeCompare rt) (Object_keys fs))))"
| "sortValue rt JUndefined = JUndefined"
| "sortValue rt JNull = JNull"
| "sortValue rt (JBool b) = JBool b"
| "sortValue rt (JNum n) = JNum n"
| "sortValue rt (JStr s) = JStr s"
  by pat_completeness auto
termination
  by (relation "measure (\<lambda>(rt, v). size v)") (auto simp: size_entry size_get_prop)

definition stableSerialize :: "runtime \<Rightarrow> jsvalue \<Rightarrow> string" where
  "stableSerialize rt v = JSON_stringify rt (sortValue rt v)"

definition buildPrimaryCacheKey :: "runtime \<Rightarrow> string \<Rightarrow> string \<Rightarrow> jsvalue \<Rightarrow> string" where
  "buildPrimaryCacheKey rt agentId backend config =
     agentId @ '':'' @ backend @ '':'' @ stableSerialize rt config"

subsection \<open>Structural equality up to key order\<close>

text \<open>
  Two values are structurally equal up to key order when they are the same scalar, arrays of
  the same length whose entries are so related position by position, or objects with the
  same set of (distinct) keys whose values are so related key by key.
\<close>

function struct_eq :: "jsvalue \<Rightarrow> jsvalue \<Rightarrow> bool" where
  "struct_eq (JArr xs) b = (case b of JArr ys \<Rightarrow> list_all2 struct_eq xs ys | _ \<Rightarrow> False)"
| "struct_eq (JObj fs) b =
     (case b of
        JObj gs \<Rightarrow>
          distinct (map fst fs) \<and> distinct (map fst gs) \<and>
          set (map fst fs) \<subseteq> set (map fst gs) \<and> set (map fst gs) \<subseteq> set (map fst fs) \<and>
          (\<forall>(k, v) \<in> set fs. \<forall>(k', w) \<in> set gs. k = k' \<longrightarrow> struct_eq v w)
      | _ \<Rightarrow> False)"
| "struct_eq JUndefined b = (b = JUndefined)"
| "struct_eq JNull b = (b = JNull)"
| "struct_eq (JBool x) b = (b = JBool x)"
| "struct_eq (JNum x) b = (b = JNum x)"
| "struct_eq (JStr x) b = (b = JStr x)"
  by pat_completeness auto
termination
  by (relation "measure (\<lambda>(a, b). size a)") (auto simp: size_entry size_field)

text \<open>
  The comparator of the key sort orders a list of keys linearly when any two keys of the list
  are comparable, the order is transitive on them, and only identical keys tie. A value has
  ordered keys when the comparator orders the keys of each of its objects linearly, at every
  depth. Nothing is asked of the comparator on strings that are not keys of one object.
\<close>

definition linear_on :: "(string \<Rightarrow> string \<Rightarrow> int) \<Rightarrow> string list \<Rightarrow> bool" where
  "linear_on cmp ks =
     ((\<forall>a\<in>set ks. \<forall>b\<in>set ks. cmp a b \<le> 0 \<or> cmp b a \<le> 0) \<and>
      (\<forall>a\<in>set ks. \<forall>b\<in>set ks. \<forall>c\<in>set ks. cmp a b \<le> 0 \<longrightarrow> cmp b c \<le> 0 \<longrightarrow> cmp a c \<le> 0) \<and>
      (\<forall>a\<in>set ks. \<forall>b\<in>set ks. cmp a b \<le> 0 \<longrightarrow> cmp b a \<le> 0 \<longrightarrow> a = b))"

function keys_ordered :: "runtime \<Rightarrow> jsvalue \<Rightarrow> bool" where
  "keys_ordered rt (JArr xs) = (\<forall>x\<in>set xs. keys_ordered rt x)"
| "keys_ordered rt (JObj fs) =
     (linear_on (localeCompare rt) (map fst fs) \<and> (\<forall>kv\<in>set fs. keys_ordered rt (snd kv)))"
| "keys_ordered rt JUndefined = True"
| "keys_ordered rt JNull = True"
| "keys_ordered rt (JBool b) = True"
| "keys_ordered rt (JNum n) = True"
| "keys_ordered rt (JStr s) = True"
  by pat_completeness auto
termination
  by (relation "measure (\<lambda>(rt, v). size v)") (auto simp: size_entry size_field)

section \<open>The Engram adapter (engram-manager)\<close>

subsection \<open>Reading and coercing JavaScript values\<close>

text \<open>
  An asynchronous call either has not settled, was rejected with an exception, or resolved
  with a value. An exception is an \<^verbatim>\<open>Error\<close> with its message or a \<^verbatim>\<open>TypeError\<close>
  raised by the engine (whose message is the engine's own).
\<close>

datatype js_error = Error string | TypeError

datatype 'a promise = Pending | Rejected js_error | Resolved 'a

fun truthy :: "jsvalue \<Rightarrow> bool" where
  "truthy JUndefined = False"
| "truthy JNull = False"
| "truthy (JBool b) = b"
| "truthy (JNum n) = (n \<noteq> Finite 0 \<and> n \<noteq> NaN)"
| "truthy (JStr s) = (s \<noteq> [])"
| "truthy (JArr xs) = True"
| "truthy (JObj fs) = True"

definition nullish :: "jsvalue \<Rightarrow> bool" where
  "nullish v = (v = JUndefined \<or> v = JNull)"

text \<open>
  \<^verbatim>\<open>v.key\<close> for the property names the adapter reads (none of them an array index,
  \<^verbatim>\<open>length\<close> or a name inherited from a prototype): a TypeError on \<^verbatim>\<open>null\<close> and
  \<^verbatim>\<open>undefined\<close>, the own property of an object, \<^verbatim>\<open>undefined\<close> on any other value.
\<close>

fun js_get :: "jsvalue \<Rightarrow> string \<Rightarrow> js_error + jsvalue" where
  "js_get JUndefined key = Inl TypeError"
| "js_get JNull key = Inl TypeError"
| "js_get (JObj fs) key = Inr (get_prop fs key)"
| "js_get v key = Inr JUndefined"

text \<open>\<^verbatim>\<open>v?.key\<close>: \<^verbatim>\<open>undefined\<close> when \<open>v\<close> is \<^verbatim>\<open>null\<close> or \<^verbatim>\<open>undefined\<close>.\<close>

definition js_get_opt :: "jsvalue \<Rightarrow> string \<Rightarrow> jsvalue" where
  "js_get_opt v key = (case js_get v key of Inl e \<Rightarrow> JUndefined | Inr x \<Rightarrow> x)"

text \<open>\<^verbatim>\<open>a ?? b\<close>\<close>

definition coalesce :: "jsvalue \<Rightarrow> jsvalue \<Rightarrow> jsvalue" where
  "coalesce a b = (if nullish a then b else a)"

text \<open>\<^verbatim>\<open>String(v)\<close> and \<^verbatim>\<open>Number(v)\<close>.\<close>

fun String_js :: "runtime \<Rightarrow> jsvalue \<Rightarrow> js_error + string" where
  "String_js rt JUndefined = Inr ''undefined''"
| "String_js rt JNull = Inr ''null''"
| "String_js rt (JBool b) = Inr (if b then ''true'' else ''false'')"
| "String_js rt (JNum n) = Inr (NumberToString rt n)"
| "String_js rt (JStr s) = Inr s"
| "String_js rt v = (case ObjectToString rt v of None \<Rightarrow> Inl TypeError | Some s \<Rightarrow> Inr s)"

fun Number_js :: "runtime \<Rightarrow> jsvalue \<Rightarrow> js_error + jsnum" where
  "Number_js rt JUndefined = Inr NaN"
| "Number_js rt JNull = Inr (Finite 0)"
| "Number_js rt (JBool b) = Inr (Finite (if b then 1 else 0))"
| "Number_js rt (JNum n) = Inr n"
| "Number_js rt (JStr s) = Inr (StringToNumber rt s)"
| "Number_js rt v =
     (case ObjectToString rt v of None \<Rightarrow> Inl TypeError | Some s \<Rightarrow> Inr (StringToNumber rt s))"

subsection \<open>Decimal numerals\<close>

fun show_nat :: "nat \<Rightarrow> string" where
  "show_nat n =
     (if n < 10 then [char_of (48 + n)] else show_nat (n div 10) @ [char_of (48 + n mod 10)])"

definition show_int :: "int \<Rightarrow> string" where
  "show_int i = (if i < 0 then CHR ''-'' # show_nat (nat (- i)) else show_nat (nat i))"

subsection \<open>One subprocess invocation\<close>

record engram_opts =
  workspaceDir :: string
  command :: string
  timeoutMs :: int

text \<open>
  What the child process and the timer deliver to the callbacks that \<^verbatim>\<open>exec\<close> registers, in
  the order of delivery: a chunk on either output stream, the \<^verbatim>\<open>error\<close> event with the
  error's message, the \<^verbatim>\<open>close\<close> event with the exit code (\<^verbatim>\<open>null\<close> when a signal ended
  the process), and the expiry of the timeout.
\<close>

datatype child_event =
    StdoutData string
  | StderrData string
  | ErrorEvent string
  | CloseEvent "int option"
  | TimeoutFired

record exec_state =
  stdout :: string
  stderr :: string
  timerArmed :: bool
  killed :: bool
  settled :: "jsvalue promise"

definition exec_start :: exec_state where
  "exec_start = \<lparr>stdout = [], stderr = [], timerArmed = True, killed = False, settled = Pending\<rparr>"

text \<open>A promise settles once: later \<^verbatim>\<open>resolve\<close> and \<^verbatim>\<open>reject\<close> calls have no effect.\<close>

definition settle :: "jsvalue promise \<Rightarrow> exec_state \<Rightarrow> exec_state" where
  "settle r st = (if settled st = Pending then st\<lparr>settled := r\<rparr> else st)"

definition exit_message :: "int option \<Rightarrow> string" where
  "exit_message code =
     ''engram adapter exited with code '' @ (case code of None \<Rightarrow> ''null'' | Some n \<Rightarrow> show_int n)"

text \<open>
  \<^verbatim>\<open>
  const timeout = setTimeout(() => {
    child.kill("SIGKILL");
    reject(new Error(`engram adapter timeout (${subcommand})`));
  }, this.opts.timeoutMs);
  child.on("error", (err) => { clearTimeout(timeout); reject(err); });
  child.stdout.on("data", (chunk) => { stdout += String(chunk); });
  child.stderr.on("data", (chunk) => { stderr += String(chunk); });
  child.on("close", (code) => {
    clearTimeout(timeout);
    if (code !== 0) {
      reject(new Error(stderr || `engram adapter exited with code ${code}`));
      return;
    }
    try {
      const parsed = JSON.parse(stdout || "{}");
      resolve(parsed as AdapterResponse);
    } catch {
      reject(new Error("engram adapter returned invalid JSON"));
    }
  });
  \<close>
\<close>

fun on_event :: "runtime \<Rightarrow> string \<Rightarrow> exec_state \<Rightarrow> child_event \<Rightarrow> exec_state" where
  "on_event rt subcommand st TimeoutFired =
     (if timerArmed st
      then settle (Rejected (Error (''engram adapter timeout ('' @ subcommand @ '')'')))
             (st\<lparr>timerArmed := False, killed := True\<rparr>)
      else st)"
| "on_event rt subcommand st (ErrorEvent message) =
     settle (Rejected (Error message)) (st\<lparr>timerArmed := False\<rparr>)"
| "on_event rt subcommand st (StdoutData chunk) = st\<lparr>stdout := stdout st @ chunk\<rparr>"
| "on_event rt subcommand st (StderrData chunk) = st\<lparr>stderr := stderr st @ chunk\<rparr>"
| "on_event rt subcommand st (CloseEvent code) =
     (let st' = st\<lparr>timerArmed := False\<rparr> in
      if code \<noteq> Some 0
      then settle (Rejected (Error (if stderr st \<noteq> [] then stderr st else exit_message code))) st'
      else (case JSON_parse rt (if stdout st \<noteq> [] then stdout st else ''{}'') of
              Some parsed \<Rightarrow> settle (Resolved parsed) st'
            | None \<Rightarrow> settle (Rejected (Error ''engram adapter returned invalid JSON'')) st'))"

text \<open>
  \<^verbatim>\<open>exec\<close> spawns the command, registers the callbacks, writes the request and returns the
  promise; the promise's outcome is what the callbacks make of the delivered events.
\<close>

definition exec :: "runtime \<Rightarrow> string \<Rightarrow> child_event list \<Rightarrow> jsvalue promise" where
  "exec rt subcommand events = settled (foldl (on_event rt subcommand) exec_start events)"

text \<open>
  The request written to the child's standard input:
  \<^verbatim>\<open>JSON.stringify({ workspaceDir: this.opts.workspaceDir, ...payload })\<close>.
\<close>

definition exec_request :: "engram_opts \<Rightarrow> (string \<times> jsvalue) list \<Rightarrow> (string \<times> jsvalue) list" where
  "exec_request opts payload =
     Object_fromEntries ((''workspaceDir'', JStr (workspaceDir opts)) # property_order payload)"

definition exec_stdin :: "runtime \<Rightarrow> engram_opts \<Rightarrow> (string \<times> jsvalue) list \<Rightarrow> string" where
  "exec_stdin rt opts payload = JSON_stringify rt (JObj (exec_request opts payload))"

subsection \<open>Construction with a health check\<close>

text \<open>
  \<^verbatim>\<open>CreateParams\<close> is either the three options themselves or the configuration, the
  agent and the resolved backend. In the second form the workspace directory comes from
  \<^verbatim>\<open>resolveAgentWorkspaceDir(cfg, agentId)\<close>, which is outside this module and given here
  as the directory it returned, and \<^verbatim>\<open>cfg.memory?.engram?.command\<close> and
  \<^verbatim>\<open>cfg.memory?.engram?.timeoutMs\<close> as what those expressions evaluate to.
\<close>

datatype create_params =
    Options string "string option" "int option"
  | FromConfig string "string option" "int option"

definition DEFAULT_COMMAND :: string where
  "DEFAULT_COMMAND = ''engram-openclaw-adapter''"

definition DEFAULT_TIMEOUT_MS :: int where
  "DEFAULT_TIMEOUT_MS = 4000"

text \<open>\<^verbatim>\<open>command || DEFAULT_COMMAND\<close> and \<^verbatim>\<open>timeoutMs ?? DEFAULT_TIMEOUT_MS\<close>.\<close>

definition make_options :: "string \<Rightarrow> string option \<Rightarrow> int option \<Rightarrow> engram_opts" where
  "make_options dir cmd tmo =
     \<lparr>workspaceDir = dir,
      command = (case cmd of None \<Rightarrow> DEFAULT_COMMAND | Some c \<Rightarrow> if c \<noteq> [] then c else DEFAULT_COMMAND),
      timeoutMs = (case tmo of None \<Rightarrow> DEFAULT_TIMEOUT_MS | Some t \<Rightarrow> t)\<rparr>"

fun create_options :: "create_params \<Rightarrow> engram_opts" where
  "create_options (FromConfig dir cmd tmo) = make_options dir cmd tmo"
| "create_options (Options dir cmd tmo) = make_options dir cmd tmo"

text \<open>\<^verbatim>\<open>health.status?.backend_available === false\<close>, for a \<open>health\<close> that is truthy.\<close>

definition reports_unavailable :: "jsvalue \<Rightarrow> bool" where
  "reports_unavailable health =
     (js_get_opt (js_get_opt health ''status'') ''backend_available'' = JBool False)"

text \<open>
  \<^verbatim>\<open>
  const manager = new EngramMemoryManager(options);
  try {
    const health = await manager.exec("health", {});
    if (!health || health.status?.backend_available === false) {
      return null;
    }
    return manager;
  } catch (err) {
    const message = err instanceof Error ? err.message : String(err);
    log.warn(`engram adapter unavailable: ${message}`);
    return null;
  }
  \<close>
  The manager is its options; \<open>None\<close> is \<^verbatim>\<open>null\<close>.
\<close>

definition create :: "runtime \<Rightarrow> create_params \<Rightarrow> child_event list \<Rightarrow> engram_opts option promise" where
  "create rt params events =
     (let manager = create_options params in
      case exec rt ''health'' events of
        Pending \<Rightarrow> Pending
      | Resolved health \<Rightarrow>
          if \<not> truthy health \<or> reports_unavailable health then Resolved None
          else Resolved (Some manager)
      | Rejected err \<Rightarrow> Resolved None)"

subsection \<open>The capability methods\<close>

record MemorySearchResult =
  path :: string
  startLine :: nat
  endLine :: nat
  score :: jsnum
  snippet :: string
  source :: string


text \<open>
  \<^verbatim>\<open>
  (entry) => ({
    path: String(entry.id ?? entry.path ?? "MEMORY.md"),
    startLine: 1,
    endLine: 1,
    score: Number(entry.score ?? 0),
    snippet: String(entry.snippet ?? ""),
    source: "memory",
  })
  \<close>
\<close>

definition map_entry :: "runtime \<Rightarrow> jsvalue \<Rightarrow> js_error + MemorySearchResult" where
  "map_entry rt entry =
     (case js_get entry ''id'' of
        Inl e \<Rightarrow> Inl e
      | Inr id_v \<Rightarrow>
          (case String_js rt
                  (coalesce id_v (coalesce (js_get_opt entry ''path'') (JStr ''MEMORY.md''))) of
             Inl e \<Rightarrow> Inl e
           | Inr p \<Rightarrow>
               (case Number_js rt (coalesce (js_get_opt entry ''score'') (JNum (Finite 0))) of
                  Inl e \<Rightarrow> Inl e
                | Inr sc \<Rightarrow>
                    (case String_js rt (coalesce (js_get_opt entry ''snippet'') (JStr [])) of
                       Inl e \<Rightarrow> Inl e
                     | Inr sn \<Rightarrow>
                         Inr \<lparr>path = p, startLine = 1, endLine = 1, score = sc, snippet = sn,
                              source = ''memory''\<rparr>))))"

text \<open>\<^verbatim>\<open>results.map(f)\<close> where \<open>f\<close> may throw: the first exception ends the call.\<close>

fun map_entries :: "runtime \<Rightarrow> jsvalue list \<Rightarrow> js_error + MemorySearchResult list" where
  "map_entries rt [] = Inr []"
| "map_entries rt (entry # rest) =
     (case map_entry rt entry of
        Inl e \<Rightarrow> Inl e
      | Inr r \<Rightarrow> (case map_entries rt rest of Inl e \<Rightarrow> Inl e | Inr rs \<Rightarrow> Inr (r # rs)))"

text \<open>
  \<^verbatim>\<open>
  const response = await this.exec("search", { query, ...opts });
  const results = (response.data?.results as Array<Record<string, unknown>> | undefined) ?? [];
  return results.map((entry) => ({ ... }));
  \<close>
  A value without a \<^verbatim>\<open>map\<close> method in place of the array is a TypeError.
\<close>

definition search_response :: "runtime \<Rightarrow> jsvalue \<Rightarrow> js_error + MemorySearchResult list" where
  "search_response rt response =
     (case js_get response ''data'' of
        Inl e \<Rightarrow> Inl e
      | Inr data \<Rightarrow>
          (case coalesce (js_get_opt data ''results'') (JArr []) of
             JArr entries \<Rightarrow> map_entries rt entries
           | _ \<Rightarrow> Inl TypeError))"

definition search :: "runtime \<Rightarrow> child_event list \<Rightarrow> MemorySearchResult list promise" where
  "search rt events =
     (case exec rt ''search'' events of
        Pending \<Rightarrow> Pending
      | Rejected err \<Rightarrow> Rejected err
      | Resolved response \<Rightarrow>
          (case search_response rt response of Inl e \<Rightarrow> Rejected e | Inr rs \<Rightarrow> Resolved rs))"

text \<open>
  \<^verbatim>\<open>lines.join("\n")\<close>: \<^verbatim>\<open>null\<close> and \<^verbatim>\<open>undefined\<close> entries contribute the empty string,
  every other entry its string conversion.
\<close>

fun join_lines :: "runtime \<Rightarrow> jsvalue list \<Rightarrow> js_error + string" where
  "join_lines rt [] = Inr []"
| "join_lines rt (x # xs) =
     (case (if nullish x then Inr [] else String_js rt x) of
        Inl e \<Rightarrow> Inl e
      | Inr s \<Rightarrow>
          (if xs = [] then Inr s
           else (case join_lines rt xs of Inl e \<Rightarrow> Inl e | Inr t \<Rightarrow> Inr (s @ [CHR 0x0A] @ t))))"

text \<open>The result \<^verbatim>\<open>{ text, path }\<close> of \<^verbatim>\<open>readFile\<close>.\<close>

record file_result =
  file_text :: string
  file_path :: string

text \<open>
  \<^verbatim>\<open>
  const response = await this.exec("fetch", params);
  const lines = (response.data?.content as string[] | undefined) ?? [];
  return { text: lines.join("\n"), path: params.relPath };
  \<close>
\<close>

definition readFile_response :: "runtime \<Rightarrow> string \<Rightarrow> jsvalue \<Rightarrow> js_error + file_result" where
  "readFile_response rt relPath response =
     (case js_get response ''data'' of
        Inl e \<Rightarrow> Inl e
      | Inr data \<Rightarrow>
          (case coalesce (js_get_opt data ''content'') (JArr []) of
             JArr lines \<Rightarrow>
               (case join_lines rt lines of
                  Inl e \<Rightarrow> Inl e
                | Inr t \<Rightarrow> Inr \<lparr>file_text = t, file_path = relPath\<rparr>)
           | _ \<Rightarrow> Inl TypeError))"

definition readFile :: "runtime \<Rightarrow> string \<Rightarrow> child_event list \<Rightarrow> file_result promise" where
  "readFile rt relPath events =
     (case exec rt ''fetch'' events of
        Pending \<Rightarrow> Pending
      | Rejected err \<Rightarrow> Rejected err
      | Resolved response \<Rightarrow>
          (case readFile_response rt relPath response of
             Inl e \<Rightarrow> Rejected e
           | Inr r \<Rightarrow> Resolved r))"

section \<open>The fallback decorator (search-manager)\<close>

text \<open>
  The decorator holds two collaborators that implement \<^verbatim>\<open>MemorySearchManager\<close>: the
  primary it was given and the fallback its factory builds. They live outside this module,
  so a collaborator is an identity together with whether it has the optional \<^verbatim>\<open>sync\<close>
  and \<^verbatim>\<open>close\<close> methods, and what a collaborator answers is an argument of the method
  that calls it: \<open>Inl message\<close> when the call throws (the message is
  \<^verbatim>\<open>err instanceof Error ? err.message : String(err)\<close>), \<open>Inr value\<close> when it returns.
\<close>

record manager_handle =
  hid :: nat
  hasSync :: bool
  hasClose :: bool

type_synonym js_object = "(string \<times> jsvalue) list"

datatype role = ViaPrimary | ViaFallback

datatype delegated =
    DSearch string "js_object option"
  | DReadFile js_object
  | DStatus
  | DSync "js_object option"
  | DProbeEmbedding
  | DProbeVector
  | DClose

text \<open>
  What a method does to the outside, in order: a call on a collaborator (through
  \<^verbatim>\<open>this.deps.primary\<close> or through \<^verbatim>\<open>this.fallback\<close>), a call of the fallback factory,
  a call of the \<^verbatim>\<open>onClose\<close> callback. The callback that \<^verbatim>\<open>getMemorySearchManager\<close>
  installs is \<^verbatim>\<open>() => PRIMARY_MANAGER_CACHE.delete(cacheKey)\<close>, so a callback is the key
  it deletes. Log lines are left out.
\<close>

datatype effect =
    Delegate role manager_handle delegated
  | InvokeFactory
  | InvokeOnClose string

record FallbackMemoryManager =
  backendName :: string
  primary :: manager_handle
  onClose :: "string option"
  fallback :: "manager_handle option"
  primaryFailed :: bool
  lastError :: "string option"
  cacheEvicted :: bool

text \<open>The constructor: the field initialisers and the two parameters.\<close>

definition new_FallbackMemoryManager ::
    "string \<Rightarrow> manager_handle \<Rightarrow> string option \<Rightarrow> FallbackMemoryManager" where
  "new_FallbackMemoryManager name prim cb =
     \<lparr>backendName = name, primary = prim, onClose = cb, fallback = None,
      primaryFailed = False, lastError = None, cacheEvicted = False\<rparr>"

text \<open>
  \<^verbatim>\<open>
  private evictCacheEntry(): void {
    if (this.cacheEvicted) { return; }
    this.cacheEvicted = true;
    this.onClose?.();
  }
  \<close>
\<close>

definition evictCacheEntry :: "FallbackMemoryManager \<Rightarrow> FallbackMemoryManager \<times> effect list" where
  "evictCacheEntry this =
     (if cacheEvicted this then (this, [])
      else (this\<lparr>cacheEvicted := True\<rparr>,
            case onClose this of None \<Rightarrow> [] | Some key \<Rightarrow> [InvokeOnClose key]))"

text \<open>
  \<^verbatim>\<open>
  private async ensureFallback(): Promise<MemorySearchManager | null> {
    if (this.fallback) { return this.fallback; }
    const fallback = await this.deps.fallbackFactory();
    if (!fallback) { return null; }
    this.fallback = fallback;
    return this.fallback;
  }
  \<close>
  \<open>factory\<close> is what the factory does if it is called. This is \<^verbatim>\<open>ensureFallback\<close> in
  a call that runs from its start to its end with no step of another call in between. The
  test of \<^verbatim>\<open>this.fallback\<close> and the assignment are separated by the \<^verbatim>\<open>await\<close> of the
  factory, where other calls of the same decorator can run; the two halves are the steps
  \<open>ensure_begin\<close> and \<open>resume\<close> at \<open>AwaitFactory\<close> of the subsection on overlapping calls.
\<close>

definition ensureFallback ::
    "FallbackMemoryManager \<Rightarrow> string + manager_handle option \<Rightarrow>
     (string + manager_handle option) \<times> FallbackMemoryManager \<times> effect list" where
  "ensureFallback this factory =
     (case fallback this of
        Some fb \<Rightarrow> (Inr (Some fb), this, [])
      | None \<Rightarrow>
          (case factory of
             Inl message \<Rightarrow> (Inl message, this, [InvokeFactory])
           | Inr None \<Rightarrow> (Inr None, this, [InvokeFactory])
           | Inr (Some fb) \<Rightarrow> (Inr (Some fb), this\<lparr>fallback := Some fb\<rparr>, [InvokeFactory])))"

text \<open>\<^verbatim>\<open>this.lastError ?? dflt\<close>\<close>

definition lastError_or :: "FallbackMemoryManager \<Rightarrow> string \<Rightarrow> string" where
  "lastError_or this dflt = (case lastError this of None \<Rightarrow> dflt | Some message \<Rightarrow> message)"

text \<open>
  The part of a degraded method after the primary: get the fallback, delegate to it, and
  otherwise do what the method does without one.
\<close>

definition via_fallback ::
    "FallbackMemoryManager \<Rightarrow> string + manager_handle option \<Rightarrow>
     (manager_handle \<Rightarrow> (string + 'a) \<times> effect list) \<Rightarrow> (string + 'a) \<Rightarrow>
     (string + 'a) \<times> FallbackMemoryManager \<times> effect list" where
  "via_fallback this factory on_fallback without =
     (case ensureFallback this factory of
        (Inl message, this', effs) \<Rightarrow> (Inl message, this', effs)
      | (Inr (Some fb), this', effs) \<Rightarrow>
          (case on_fallback fb of (r, effs') \<Rightarrow> (r, this', effs @ effs'))
      | (Inr None, this', effs) \<Rightarrow> (without, this', effs))"

text \<open>
  \<^verbatim>\<open>
  async search(query, opts) {
    if (!this.primaryFailed) {
      try {
        return await this.deps.primary.search(query, opts);
      } catch (err) {
        this.primaryFailed = true;
        this.lastError = err instanceof Error ? err.message : String(err);
        await this.deps.primary.close?.().catch(() => {});
        this.evictCacheEntry();
      }
    }
    const fallback = await this.ensureFallback();
    if (fallback) { return await fallback.search(query, opts); }
    throw new Error(this.lastError ?? "memory search unavailable");
  }
  \<close>
\<close>

definition degrade :: "FallbackMemoryManager \<Rightarrow> string \<Rightarrow> FallbackMemoryManager \<times> effect list" where
  "degrade this message =
     (let this1 = this\<lparr>primaryFailed := True, lastError := Some message\<rparr>;
          closing = (if hasClose (primary this1) then [Delegate ViaPrimary (primary this1) DClose] else [])
      in case evictCacheEntry this1 of (this2, effs) \<Rightarrow> (this2, closing @ effs))"

definition fmm_search ::
    "FallbackMemoryManager \<Rightarrow> string \<Rightarrow> js_object option \<Rightarrow>
     string + MemorySearchResult list \<Rightarrow> string + manager_handle option \<Rightarrow>
     string + MemorySearchResult list \<Rightarrow>
     (string + MemorySearchResult list) \<times> FallbackMemoryManager \<times> effect list" where
  "fmm_search this query opts primaryAnswer factory fallbackAnswer =
     (let rest = (\<lambda>this' effs.
            case via_fallback this' factory
                   (\<lambda>fb. (fallbackAnswer, [Delegate ViaFallback fb (DSearch query opts)]))
                   (Inl (lastError_or this' ''memory search unavailable'')) of
              (r, this'', effs') \<Rightarrow> (r, this'', effs @ effs'))
      in if \<not> primaryFailed this then
           (case primaryAnswer of
              Inr results \<Rightarrow>
                (Inr results, this, [Delegate ViaPrimary (primary this) (DSearch query opts)])
            | Inl message \<Rightarrow>
                (case degrade this message of
                   (this', effs) \<Rightarrow>
                     rest this' (Delegate ViaPrimary (primary this) (DSearch query opts) # effs)))
         else rest this [])"

text \<open>
  \<^verbatim>\<open>
  async readFile(params) {
    if (!this.primaryFailed) { return await this.deps.primary.readFile(params); }
    const fallback = await this.ensureFallback();
    if (fallback) { return await fallback.readFile(params); }
    throw new Error(this.lastError ?? "memory read unavailable");
  }
  \<close>
\<close>

definition fmm_readFile ::
    "FallbackMemoryManager \<Rightarrow> js_object \<Rightarrow> string + file_result \<Rightarrow>
     string + manager_handle option \<Rightarrow> string + file_result \<Rightarrow>
     (string + file_result) \<times> FallbackMemoryManager \<times> effect list" where
  "fmm_readFile this params primaryAnswer factory fallbackAnswer =
     (if \<not> primaryFailed this
      then (primaryAnswer, this, [Delegate ViaPrimary (primary this) (DReadFile params)])
      else via_fallback this factory
             (\<lambda>fb. (fallbackAnswer, [Delegate ViaFallback fb (DReadFile params)]))
             (Inl (lastError_or this ''memory read unavailable'')))"

text \<open>
  \<^verbatim>\<open>
  status() {
    if (!this.primaryFailed) { return this.deps.primary.status(); }
    const fallbackStatus = this.fallback?.status();
    const fallbackInfo = { from: this.deps.backendName, reason: this.lastError ?? "unknown" };
    if (fallbackStatus) {
      const custom = fallbackStatus.custom ?? {};
      return { ...fallbackStatus, fallback: fallbackInfo,
               custom: { ...custom, fallback: { disabled: true, reason: this.lastError ?? "unknown" } } };
    }
    const primaryStatus = this.deps.primary.status();
    const custom = primaryStatus.custom ?? {};
    return { ...primaryStatus, fallback: fallbackInfo,
             custom: { ...custom, fallback: { disabled: true, reason: this.lastError ?? "unknown" } } };
  }
  \<close>
  A status is an object; by its type \<^verbatim>\<open>custom\<close> is an object when it is there.
\<close>

definition spread :: "jsvalue \<Rightarrow> js_object" where
  "spread v = (case v of JObj fs \<Rightarrow> property_order fs | _ \<Rightarrow> [])"

definition annotate_status :: "FallbackMemoryManager \<Rightarrow> js_object \<Rightarrow> js_object" where
  "annotate_status this st =
     (let reason = JStr (lastError_or this ''unknown'');
          fallbackInfo = JObj [(''from'', JStr (backendName this)), (''reason'', reason)];
          custom = coalesce (get_prop st ''custom'') (JObj [])
      in Object_fromEntries
           (property_order st @
            [(''fallback'', fallbackInfo),
             (''custom'',
              JObj (Object_fromEntries
                (spread custom @
                 [(''fallback'', JObj [(''disabled'', JBool True), (''reason'', reason)])])))]))"

definition fmm_status ::
    "FallbackMemoryManager \<Rightarrow> js_object \<Rightarrow> js_object \<Rightarrow> js_object \<times> effect list" where
  "fmm_status this primaryStatus fallbackStatus =
     (if \<not> primaryFailed this
      then (primaryStatus, [Delegate ViaPrimary (primary this) DStatus])
      else (case fallback this of
              Some fb \<Rightarrow> (annotate_status this fallbackStatus, [Delegate ViaFallback fb DStatus])
            | None \<Rightarrow>
                (annotate_status this primaryStatus, [Delegate ViaPrimary (primary this) DStatus])))"

text \<open>
  \<^verbatim>\<open>
  async sync(params?) {
    if (!this.primaryFailed) { await this.deps.primary.sync?.(params); return; }
    const fallback = await this.ensureFallback();
    await fallback?.sync?.(params);
  }
  \<close>
\<close>

definition fmm_sync ::
    "FallbackMemoryManager \<Rightarrow> js_object option \<Rightarrow> string + unit \<Rightarrow>
     string + manager_handle option \<Rightarrow> string + unit \<Rightarrow>
     (string + unit) \<times> FallbackMemoryManager \<times> effect list" where
  "fmm_sync this params primaryAnswer factory fallbackAnswer =
     (if \<not> primaryFailed this
      then (if hasSync (primary this)
            then (primaryAnswer, this, [Delegate ViaPrimary (primary this) (DSync params)])
            else (Inr (), this, []))
      else via_fallback this factory
             (\<lambda>fb. if hasSync fb then (fallbackAnswer, [Delegate ViaFallback fb (DSync params)])
                   else (Inr (), []))
             (Inr ()))"

text \<open>
  \<^verbatim>\<open>
  async probeEmbeddingAvailability() {
    if (!this.primaryFailed) { return await this.deps.primary.probeEmbeddingAvailability(); }
    const fallback = await this.ensureFallback();
    if (fallback) { return await fallback.probeEmbeddingAvailability(); }
    return { ok: false, error: this.lastError ?? "memory embeddings unavailable" };
  }
  async probeVectorAvailability() {
    if (!this.primaryFailed) { return await this.deps.primary.probeVectorAvailability(); }
    const fallback = await this.ensureFallback();
    return (await fallback?.probeVectorAvailability()) ?? false;
  }
  \<close>
\<close>

record MemoryEmbeddingProbeResult =
  ok :: bool
  error :: "string option"

definition fmm_probeEmbeddingAvailability ::
    "FallbackMemoryManager \<Rightarrow> string + MemoryEmbeddingProbeResult \<Rightarrow>
     string + manager_handle option \<Rightarrow> string + MemoryEmbeddingProbeResult \<Rightarrow>
     (string + MemoryEmbeddingProbeResult) \<times> FallbackMemoryManager \<times> effect list" where
  "fmm_probeEmbeddingAvailability this primaryAnswer factory fallbackAnswer =
     (if \<not> primaryFailed this
      then (primaryAnswer, this, [Delegate ViaPrimary (primary this) DProbeEmbedding])
      else via_fallback this factory
             (\<lambda>fb. (fallbackAnswer, [Delegate ViaFallback fb DProbeEmbedding]))
             (Inr \<lparr>ok = False, error = Some (lastError_or this ''memory embeddings unavailable'')\<rparr>))"

definition fmm_probeVectorAvailability ::
    "FallbackMemoryManager \<Rightarrow> string + bool \<Rightarrow> string + manager_handle option \<Rightarrow>
     string + bool \<Rightarrow> (string + bool) \<times> FallbackMemoryManager \<times> effect list" where
  "fmm_probeVectorAvailability this primaryAnswer factory fallbackAnswer =
     (if \<not> primaryFailed this
      then (primaryAnswer, this, [Delegate ViaPrimary (primary this) DProbeVector])
      else via_fallback this factory
             (\<lambda>fb. (fallbackAnswer, [Delegate ViaFallback fb DProbeVector]))
             (Inr False))"

text \<open>
  \<^verbatim>\<open>
  async close() {
    await this.deps.primary.close?.();
    await this.fallback?.close?.();
    this.evictCacheEntry();
  }
  \<close>
\<close>

definition fmm_close ::
    "FallbackMemoryManager \<Rightarrow> string + unit \<Rightarrow> string + unit \<Rightarrow>
     (string + unit) \<times> FallbackMemoryManager \<times> effect list" where
  "fmm_close this primaryAnswer fallbackAnswer =
     (let effs1 = (if hasClose (primary this) then [Delegate ViaPrimary (primary this) DClose] else [])
      in if hasClose (primary this) \<and> isl primaryAnswer then (primaryAnswer, this, effs1)
         else
           (let closes_fallback = (case fallback this of None \<Rightarrow> False | Some fb \<Rightarrow> hasClose fb);
                effs2 = (case fallback this of
                           None \<Rightarrow> []
                         | Some fb \<Rightarrow> if hasClose fb then [Delegate ViaFallback fb DClose] else [])
            in if closes_fallback \<and> isl fallbackAnswer then (fallbackAnswer, this, effs1 @ effs2)
               else (case evictCacheEntry this of
                       (this', effs3) \<Rightarrow> (Inr (), this', effs1 @ effs2 @ effs3))))"

subsection \<open>Method calls that run one after the other\<close>

text \<open>
  The definitions above give each method from its start to its end: they describe a call
  during which no other call of the same decorator runs. \<open>fmm_run\<close> is a sequence of such
  calls, each finished before the next one starts. Calls that overlap are the subject of
  the next subsection.

  A call of one of the seven methods, with its arguments and with what the collaborators
  answer if the method reaches them.
\<close>

datatype method_call =
    Search string "js_object option" "string + MemorySearchResult list"
      "string + manager_handle option" "string + MemorySearchResult list"
  | ReadFile js_object "string + file_result" "string + manager_handle option" "string + file_result"
  | Status js_object js_object
  | Sync "js_object option" "string + unit" "string + manager_handle option" "string + unit"
  | ProbeEmbedding "string + MemoryEmbeddingProbeResult" "string + manager_handle option"
      "string + MemoryEmbeddingProbeResult"
  | ProbeVector "string + bool" "string + manager_handle option" "string + bool"
  | Close "string + unit" "string + unit"

text \<open>The decorator after the call and what the call did to the outside.\<close>

fun fmm_call :: "FallbackMemoryManager \<Rightarrow> method_call \<Rightarrow> FallbackMemoryManager \<times> effect list" where
  "fmm_call this (Search query opts pa fa fb) = snd (fmm_search this query opts pa fa fb)"
| "fmm_call this (ReadFile params pa fa fb) = snd (fmm_readFile this params pa fa fb)"
| "fmm_call this (Status ps fs) = (this, snd (fmm_status this ps fs))"
| "fmm_call this (Sync params pa fa fb) = snd (fmm_sync this params pa fa fb)"
| "fmm_call this (ProbeEmbedding pa fa fb) = snd (fmm_probeEmbeddingAvailability this pa fa fb)"
| "fmm_call this (ProbeVector pa fa fb) = snd (fmm_probeVectorAvailability this pa fa fb)"
| "fmm_call this (Close pa fb) = snd (fmm_close this pa fb)"

fun fmm_run :: "FallbackMemoryManager \<Rightarrow> method_call list \<Rightarrow> FallbackMemoryManager \<times> effect list" where
  "fmm_run this [] = (this, [])"
| "fmm_run this (c # cs) =
     (case fmm_call this c of
        (this', effs) \<Rightarrow> (case fmm_run this' cs of (this'', effs') \<Rightarrow> (this'', effs @ effs')))"

subsection \<open>Overlapping calls on one decorator\<close>

text \<open>
  All methods except \<^verbatim>\<open>status\<close> are \<^verbatim>\<open>async\<close>: a call runs until its next \<^verbatim>\<open>await\<close>,
  is suspended there, and is resumed with what it awaited. While it is suspended, other
  calls of the same decorator run. Between two suspension points a call runs alone, so these
  stretches are the steps that interleave. The suspension points are: the \<^verbatim>\<open>await\<close> of the
  primary's method; in \<^verbatim>\<open>search\<close>, the \<^verbatim>\<open>await\<close> of the primary's \<^verbatim>\<open>close\<close> after a failure
  (\<^verbatim>\<open>primaryFailed\<close> and \<^verbatim>\<open>lastError\<close> are set before it, \<^verbatim>\<open>evictCacheEntry()\<close> runs after
  it); in \<^verbatim>\<open>ensureFallback\<close>, the \<^verbatim>\<open>await\<close> of the factory (the test of \<^verbatim>\<open>this.fallback\<close>
  comes before it, the assignment after it); the \<^verbatim>\<open>await\<close> of \<^verbatim>\<open>this.ensureFallback()\<close>
  itself; the \<^verbatim>\<open>await\<close> of the fallback's method; and in \<^verbatim>\<open>close\<close> the two \<^verbatim>\<open>await\<close>s
  before \<^verbatim>\<open>evictCacheEntry()\<close>.

  The five methods that go through \<^verbatim>\<open>ensureFallback\<close> have the same shape; a continuation
  says which of them a suspended call is in, with its arguments.
\<close>

datatype continuation =
    KSearch string "js_object option"
  | KReadFile js_object
  | KSync "js_object option"
  | KProbeEmbedding
  | KProbeVector

fun delegated_of :: "continuation \<Rightarrow> delegated" where
  "delegated_of (KSearch query opts) = DSearch query opts"
| "delegated_of (KReadFile params) = DReadFile params"
| "delegated_of (KSync params) = DSync params"
| "delegated_of KProbeEmbedding = DProbeEmbedding"
| "delegated_of KProbeVector = DProbeVector"

text \<open>\<^verbatim>\<open>sync\<close> is optional on a collaborator (\<^verbatim>\<open>sync?.(params)\<close>), the other four are not.\<close>

fun has_method :: "manager_handle \<Rightarrow> continuation \<Rightarrow> bool" where
  "has_method h (KSync params) = hasSync h"
| "has_method h k = True"

text \<open>What a call returns or what a collaborator's method resolves with.\<close>

datatype answer_value =
    VSearch "MemorySearchResult list"
  | VFile file_result
  | VUnit
  | VProbe MemoryEmbeddingProbeResult
  | VBool bool
  | VStatus js_object

text \<open>
  What a suspended call is resumed with: the settled promise of a collaborator's method
  (\<open>Inl message\<close> when it rejected), the settled promise of the factory, or nothing that the
  call looks at (an \<^verbatim>\<open>await\<close> of \<^verbatim>\<open>undefined\<close>, or of a promise whose value was fixed when
  the call was suspended).
\<close>

datatype resumption =
    Answered "string + answer_value"
  | Built "string + manager_handle option"
  | Tick

text \<open>
  Where a call is suspended. \<open>AwaitEnsured\<close> is the \<^verbatim>\<open>await\<close> of \<^verbatim>\<open>this.ensureFallback()\<close>
  once \<^verbatim>\<open>ensureFallback\<close> has returned or thrown; it carries that outcome.
\<close>

datatype pending =
    AwaitPrimary continuation
  | AwaitPrimaryClose string "js_object option"
  | AwaitFactory continuation
  | AwaitEnsured continuation "string + manager_handle option"
  | AwaitFallback continuation
  | CloseAwaitPrimary
  | CloseAwaitFallback

datatype progress = Suspended pending | Finished "string + answer_value"

datatype invocation = ICall continuation | IStatus js_object js_object | IClose

text \<open>
  \<^verbatim>\<open>this.ensureFallback()\<close> up to its first suspension: with a stored fallback it returns it,
  without one it calls the factory and waits.
\<close>

definition ensure_begin ::
    "FallbackMemoryManager \<Rightarrow> continuation \<Rightarrow> progress \<times> FallbackMemoryManager \<times> effect list" where
  "ensure_begin this k =
     (case fallback this of
        Some fb \<Rightarrow> (Suspended (AwaitEnsured k (Inr (Some fb))), this, [])
      | None \<Rightarrow> (Suspended (AwaitFactory k), this, [InvokeFactory]))"

text \<open>What each of the five methods does when \<^verbatim>\<open>ensureFallback\<close> returned \<^verbatim>\<open>null\<close>.\<close>

fun without_fallback :: "FallbackMemoryManager \<Rightarrow> continuation \<Rightarrow> string + answer_value" where
  "without_fallback this (KSearch query opts) = Inl (lastError_or this ''memory search unavailable'')"
| "without_fallback this (KReadFile params) = Inl (lastError_or this ''memory read unavailable'')"
| "without_fallback this (KSync params) = Inr VUnit"
| "without_fallback this KProbeEmbedding =
     Inr (VProbe \<lparr>ok = False, error = Some (lastError_or this ''memory embeddings unavailable'')\<rparr>)"
| "without_fallback this KProbeVector = Inr (VBool False)"

text \<open>
  The first step of a call: up to the first \<^verbatim>\<open>await\<close>. \<^verbatim>\<open>status\<close> is not \<^verbatim>\<open>async\<close> and
  finishes in this step.
\<close>

fun begin_call ::
    "FallbackMemoryManager \<Rightarrow> invocation \<Rightarrow> progress \<times> FallbackMemoryManager \<times> effect list" where
  "begin_call this (ICall k) =
     (if \<not> primaryFailed this
      then (Suspended (AwaitPrimary k), this,
            if has_method (primary this) k then [Delegate ViaPrimary (primary this) (delegated_of k)]
            else [])
      else ensure_begin this k)"
| "begin_call this (IStatus primaryStatus fallbackStatus) =
     (case fmm_status this primaryStatus fallbackStatus of
        (st, effs) \<Rightarrow> (Finished (Inr (VStatus st)), this, effs))"
| "begin_call this IClose =
     (Suspended CloseAwaitPrimary, this,
      if hasClose (primary this) then [Delegate ViaPrimary (primary this) DClose] else [])"

text \<open>
  The step of a suspended call that is resumed: from the \<^verbatim>\<open>await\<close> it was suspended at to
  the next one, or to its end. A resumption of the wrong kind for the suspension point
  leaves the call suspended.
\<close>

fun resume ::
    "FallbackMemoryManager \<Rightarrow> pending \<Rightarrow> resumption \<Rightarrow>
     progress \<times> FallbackMemoryManager \<times> effect list" where
  "resume this (AwaitPrimary k) r =
     (case r of
        Answered (Inr v) \<Rightarrow> (Finished (Inr v), this, [])
      | Answered (Inl message) \<Rightarrow>
          (case k of
             KSearch query opts \<Rightarrow>
               (Suspended (AwaitPrimaryClose query opts),
                this\<lparr>primaryFailed := True, lastError := Some message\<rparr>,
                if hasClose (primary this) then [Delegate ViaPrimary (primary this) DClose] else [])
           | _ \<Rightarrow> (Finished (Inl message), this, []))
      | Tick \<Rightarrow> (Finished (Inr VUnit), this, [])
      | Built b \<Rightarrow> (Suspended (AwaitPrimary k), this, []))"
| "resume this (AwaitPrimaryClose query opts) r =
     (case evictCacheEntry this of
        (this', effs) \<Rightarrow>
          (case ensure_begin this' (KSearch query opts) of
             (p, this'', effs') \<Rightarrow> (p, this'', effs @ effs')))"
| "resume this (AwaitFactory k) r =
     (case r of
        Built (Inr (Some fb)) \<Rightarrow>
          (Suspended (AwaitEnsured k (Inr (Some fb))), this\<lparr>fallback := Some fb\<rparr>, [])
      | Built b \<Rightarrow> (Suspended (AwaitEnsured k b), this, [])
      | _ \<Rightarrow> (Suspended (AwaitFactory k), this, []))"
| "resume this (AwaitEnsured k b) r =
     (case b of
        Inl message \<Rightarrow> (Finished (Inl message), this, [])
      | Inr None \<Rightarrow> (Finished (without_fallback this k), this, [])
      | Inr (Some fb) \<Rightarrow>
          (Suspended (AwaitFallback k), this,
           if has_method fb k then [Delegate ViaFallback fb (delegated_of k)] else []))"
| "resume this (AwaitFallback k) r =
     (case r of
        Answered a \<Rightarrow> (Finished a, this, [])
      | Tick \<Rightarrow> (Finished (Inr VUnit), this, [])
      | Built b \<Rightarrow> (Suspended (AwaitFallback k), this, []))"
| "resume this CloseAwaitPrimary r =
     (case r of
        Answered (Inl message) \<Rightarrow> (Finished (Inl message), this, [])
      | _ \<Rightarrow>
          (Suspended CloseAwaitFallback, this,
           case fallback this of
             None \<Rightarrow> []
           | Some fb \<Rightarrow> if hasClose fb then [Delegate ViaFallback fb DClose] else []))"
| "resume this CloseAwaitFallback r =
     (case r of
        Answered (Inl message) \<Rightarrow> (Finished (Inl message), this, [])
      | _ \<Rightarrow>
          (case evictCacheEntry this of (this', effs) \<Rightarrow> (Finished (Inr VUnit), this', effs)))"

text \<open>
  A decorator with the calls that have been started on it. An event starts a call or resumes
  the call with the given number; resuming a call that has finished, or that does not
  exist, does nothing. Any list of events is an interleaving of the steps of the calls.
\<close>

record running =
  decorator :: FallbackMemoryManager
  in_flight :: "progress list"

datatype event = Begin invocation | Resume nat resumption

fun step :: "running \<Rightarrow> event \<Rightarrow> running \<times> effect list" where
  "step st (Begin call) =
     (case begin_call (decorator st) call of
        (p, this', effs) \<Rightarrow> (\<lparr>decorator = this', in_flight = in_flight st @ [p]\<rparr>, effs))"
| "step st (Resume n r) =
     (if n < length (in_flight st) then
        (case in_flight st ! n of
           Suspended p \<Rightarrow>
             (case resume (decorator st) p r of
                (p', this', effs) \<Rightarrow>
                  (\<lparr>decorator = this', in_flight = (in_flight st)[n := p']\<rparr>, effs))
         | Finished a \<Rightarrow> (st, []))
      else (st, []))"

fun run_events :: "running \<Rightarrow> event list \<Rightarrow> running \<times> effect list" where
  "run_events st [] = (st, [])"
| "run_events st (ev # evs) =
     (case step st ev of
        (st', effs) \<Rightarrow> (case run_events st' evs of (st'', effs') \<Rightarrow> (st'', effs @ effs')))"

definition fresh :: "FallbackMemoryManager \<Rightarrow> running" where
  "fresh this = \<lparr>decorator = this, in_flight = []\<rparr>"

text \<open>
  One call run through its steps with no other call in between, resumed each time with the
  answers that the \<open>method_call\<close> carries. A call has at most five suspension points.
\<close>

fun invocation_of :: "method_call \<Rightarrow> invocation" where
  "invocation_of (Search query opts pa fa fb) = ICall (KSearch query opts)"
| "invocation_of (ReadFile params pa fa fb) = ICall (KReadFile params)"
| "invocation_of (Status ps fs) = IStatus ps fs"
| "invocation_of (Sync params pa fa fb) = ICall (KSync params)"
| "invocation_of (ProbeEmbedding pa fa fb) = ICall KProbeEmbedding"
| "invocation_of (ProbeVector pa fa fb) = ICall KProbeVector"
| "invocation_of (Close pa fb) = IClose"

fun answers_of ::
    "method_call \<Rightarrow> (string + answer_value) \<times> (string + manager_handle option) \<times> (string + answer_value)" where
  "answers_of (Search query opts pa fa fb) = (map_sum id VSearch pa, fa, map_sum id VSearch fb)"
| "answers_of (ReadFile params pa fa fb) = (map_sum id VFile pa, fa, map_sum id VFile fb)"
| "answers_of (Status ps fs) = (Inr VUnit, Inr None, Inr VUnit)"
| "answers_of (Sync params pa fa fb) = (map_sum id (\<lambda>u. VUnit) pa, fa, map_sum id (\<lambda>u. VUnit) fb)"
| "answers_of (ProbeEmbedding pa fa fb) = (map_sum id VProbe pa, fa, map_sum id VProbe fb)"
| "answers_of (ProbeVector pa fa fb) = (map_sum id VBool pa, fa, map_sum id VBool fb)"
| "answers_of (Close pa fb) = (map_sum id (\<lambda>u. VUnit) pa, Inr None, map_sum id (\<lambda>u. VUnit) fb)"

text \<open>
  What the call is resumed with at each suspension point: the answer of the collaborator
  whose method it awaits, the factory's outcome, or nothing where it awaits no collaborator
  (an optional method that is missing, or the \<^verbatim>\<open>await\<close> of \<^verbatim>\<open>ensureFallback()\<close>).
\<close>

fun respond :: "FallbackMemoryManager \<Rightarrow> method_call \<Rightarrow> pending \<Rightarrow> resumption" where
  "respond this c (AwaitPrimary k) =
     (if has_method (primary this) k then Answered (fst (answers_of c)) else Tick)"
| "respond this c (AwaitPrimaryClose query opts) = Tick"
| "respond this c (AwaitFactory k) = Built (fst (snd (answers_of c)))"
| "respond this c (AwaitEnsured k b) = Tick"
| "respond this c (AwaitFallback k) =
     (case fallback this of
        Some fb \<Rightarrow> if has_method fb k then Answered (snd (snd (answers_of c))) else Tick
      | None \<Rightarrow> Tick)"
| "respond this c CloseAwaitPrimary =
     (if hasClose (primary this) then Answered (fst (answers_of c)) else Tick)"
| "respond this c CloseAwaitFallback =
     (case fallback this of
        Some fb \<Rightarrow> if hasClose fb then Answered (snd (snd (answers_of c))) else Tick
      | None \<Rightarrow> Tick)"

fun drive ::
    "nat \<Rightarrow> method_call \<Rightarrow> progress \<times> FallbackMemoryManager \<times> effect list \<Rightarrow>
     progress \<times> FallbackMemoryManager \<times> effect list" where
  "drive 0 c x = x"
| "drive (Suc n) c (Finished a, this, effs) = (Finished a, this, effs)"
| "drive (Suc n) c (Suspended p, this, effs) =
     (case resume this p (respond this c p) of
        (p', this', effs') \<Rightarrow> drive n c (p', this', effs @ effs'))"

definition alone ::
    "FallbackMemoryManager \<Rightarrow> method_call \<Rightarrow> progress \<times> FallbackMemoryManager \<times> effect list" where
  "alone this c = drive (Suc (Suc (Suc (Suc (Suc 0))))) c (begin_call this (invocation_of c))"

fun result_of :: "FallbackMemoryManager \<Rightarrow> method_call \<Rightarrow> string + answer_value" where
  "result_of this (Search query opts pa fa fb) =
     map_sum id VSearch (fst (fmm_search this query opts pa fa fb))"
| "result_of this (ReadFile params pa fa fb) =
     map_sum id VFile (fst (fmm_readFile this params pa fa fb))"
| "result_of this (Status ps fs) = Inr (VStatus (fst (fmm_status this ps fs)))"
| "result_of this (Sync params pa fa fb) =
     map_sum id (\<lambda>u. VUnit) (fst (fmm_sync this params pa fa fb))"
| "result_of this (ProbeEmbedding pa fa fb) =
     map_sum id VProbe (fst (fmm_probeEmbeddingAvailability this pa fa fb))"
| "result_of this (ProbeVector pa fa fb) =
     map_sum id VBool (fst (fmm_probeVectorAvailability this pa fa fb))"
| "result_of this (Close pa fb) = map_sum id (\<lambda>u. VUnit) (fst (fmm_close this pa fb))"

section \<open>The provider cache (search-manager)\<close>

text \<open>
  The module state: \<^verbatim>\<open>PRIMARY_MANAGER_CACHE\<close> maps a cache key to a decorator. Decorators
  are objects with identity, so they live in a store under references and the cache holds
  references; \<open>allocated\<close> is the next reference that \<^verbatim>\<open>new\<close> hands out.
\<close>

record module_state =
  PRIMARY_MANAGER_CACHE :: "string \<rightharpoonup> nat"
  store :: "nat \<rightharpoonup> FallbackMemoryManager"
  allocated :: nat

definition initial_state :: module_state where
  "initial_state = \<lparr>PRIMARY_MANAGER_CACHE = Map.empty, store = Map.empty, allocated = 0\<rparr>"

text \<open>
  \<^verbatim>\<open>resolveMemoryBackendConfig(params)\<close> is outside this module; its result is an argument.
  \<^verbatim>\<open>resolved.qmd\<close> and \<^verbatim>\<open>resolved.engram\<close> are \<^verbatim>\<open>undefined\<close> when absent.
\<close>

record resolved_config =
  backend :: string
  qmd :: jsvalue
  engram :: jsvalue

text \<open>The manager that is returned: a decorator of this module or the builtin index manager.\<close>

datatype manager_ref = Decorator nat | Builtin manager_handle

record MemorySearchManagerResult =
  manager :: "manager_ref option"
  error_message :: "string option"

text \<open>The constructors of the providers that a call of \<^verbatim>\<open>getMemorySearchManager\<close> invokes.\<close>

datatype construction = QmdCreate | EngramCreate | IndexManagerGet

text \<open>\<^verbatim>\<open>new FallbackMemoryManager(deps, onClose)\<close> stored under a fresh reference.\<close>

definition allocate :: "module_state \<Rightarrow> FallbackMemoryManager \<Rightarrow> nat \<times> module_state" where
  "allocate ms obj =
     (allocated ms, ms\<lparr>store := (store ms)(allocated ms \<mapsto> obj), allocated := Suc (allocated ms)\<rparr>)"

text \<open>
  \<^verbatim>\<open>
  if (resolved.backend === "qmd" && resolved.qmd) {
    const cacheKey = buildPrimaryCacheKey(params.agentId, "qmd", resolved.qmd);
    const cached = PRIMARY_MANAGER_CACHE.get(cacheKey);
    if (cached) { return { manager: cached }; }
    try {
      const primary = await QmdMemoryManager.create({ cfg, agentId, resolved });
      if (primary) {
        const wrapper = new FallbackMemoryManager(
          { backendName: "qmd", primary, fallbackFactory: ... },
          () => PRIMARY_MANAGER_CACHE.delete(cacheKey));
        PRIMARY_MANAGER_CACHE.set(cacheKey, wrapper);
        return { manager: wrapper };
      }
    } catch (err) { log.warn(...); }
  }
  \<close>
  \<open>qmdCreate\<close> is what \<^verbatim>\<open>QmdMemoryManager.create\<close> does if it is called: it throws, returns
  \<^verbatim>\<open>null\<close>, or returns a manager. \<open>None\<close> as the first component means that the code
  goes on to the next provider.
\<close>

definition qmd_branch ::
    "runtime \<Rightarrow> module_state \<Rightarrow> string \<Rightarrow> resolved_config \<Rightarrow> string + manager_handle option \<Rightarrow>
     MemorySearchManagerResult option \<times> module_state \<times> construction list" where
  "qmd_branch rt ms agentId resolved qmdCreate =
     (if backend resolved = ''qmd'' \<and> truthy (qmd resolved) then
        (let cacheKey = buildPrimaryCacheKey rt agentId ''qmd'' (qmd resolved) in
         case PRIMARY_MANAGER_CACHE ms cacheKey of
           Some cached \<Rightarrow> (Some \<lparr>manager = Some (Decorator cached), error_message = None\<rparr>, ms, [])
         | None \<Rightarrow>
             (case qmdCreate of
                Inr (Some prim) \<Rightarrow>
                  (case allocate ms (new_FallbackMemoryManager ''qmd'' prim (Some cacheKey)) of
                     (wrapper, ms') \<Rightarrow>
                       (Some \<lparr>manager = Some (Decorator wrapper), error_message = None\<rparr>,
                        ms'\<lparr>PRIMARY_MANAGER_CACHE := (PRIMARY_MANAGER_CACHE ms')(cacheKey \<mapsto> wrapper)\<rparr>,
                        [QmdCreate]))
              | _ \<Rightarrow> (None, ms, [QmdCreate])))
      else (None, ms, []))"

text \<open>
  \<^verbatim>\<open>
  if (resolved.backend === "engram" && resolved.engram) {
    try {
      const primary = await EngramMemoryManager.create({ workspaceDir: ..., command: ..., timeoutMs: ... });
      if (primary) {
        return { manager: new FallbackMemoryManager(
          { backendName: "engram", primary, fallbackFactory: ... }) };
      }
    } catch (err) { log.warn(...); }
  }
  \<close>
\<close>

definition engram_branch ::
    "module_state \<Rightarrow> resolved_config \<Rightarrow> string + manager_handle option \<Rightarrow>
     MemorySearchManagerResult option \<times> module_state \<times> construction list" where
  "engram_branch ms resolved engramCreate =
     (if backend resolved = ''engram'' \<and> truthy (engram resolved) then
        (case engramCreate of
           Inr (Some prim) \<Rightarrow>
             (case allocate ms (new_FallbackMemoryManager ''engram'' prim None) of
                (wrapper, ms') \<Rightarrow>
                  (Some \<lparr>manager = Some (Decorator wrapper), error_message = None\<rparr>, ms',
                   [EngramCreate]))
         | _ \<Rightarrow> (None, ms, [EngramCreate]))
      else (None, ms, []))"

text \<open>
  \<^verbatim>\<open>
  try {
    const manager = await MemoryIndexManager.get(params);
    return { manager };
  } catch (err) {
    const message = err instanceof Error ? err.message : String(err);
    return { manager: null, error: message };
  }
  \<close>
\<close>

definition builtin_branch :: "string + manager_handle option \<Rightarrow> MemorySearchManagerResult" where
  "builtin_branch indexGet =
     (case indexGet of
        Inr m \<Rightarrow> \<lparr>manager = map_option Builtin m, error_message = None\<rparr>
      | Inl message \<Rightarrow> \<lparr>manager = None, error_message = Some message\<rparr>)"

definition getMemorySearchManager ::
    "runtime \<Rightarrow> module_state \<Rightarrow> string \<Rightarrow> resolved_config \<Rightarrow>
     string + manager_handle option \<Rightarrow> string + manager_handle option \<Rightarrow>
     string + manager_handle option \<Rightarrow>
     MemorySearchManagerResult \<times> module_state \<times> construction list" where
  "getMemorySearchManager rt ms agentId resolved qmdCreate engramCreate indexGet =
     (case qmd_branch rt ms agentId resolved qmdCreate of
        (Some r, ms1, cs1) \<Rightarrow> (r, ms1, cs1)
      | (None, ms1, cs1) \<Rightarrow>
          (case engram_branch ms1 resolved engramCreate of
             (Some r, ms2, cs2) \<Rightarrow> (r, ms2, cs1 @ cs2)
           | (None, ms2, cs2) \<Rightarrow> (builtin_branch indexGet, ms2, cs1 @ cs2 @ [IndexManagerGet])))"

subsection \<open>Method calls on a stored decorator\<close>

text \<open>
  Running the \<^verbatim>\<open>onClose\<close> callbacks that a method invoked:
  \<^verbatim>\<open>PRIMARY_MANAGER_CACHE.delete(cacheKey)\<close> for each.
\<close>

fun run_callbacks :: "effect list \<Rightarrow> (string \<rightharpoonup> nat) \<Rightarrow> (string \<rightharpoonup> nat)" where
  "run_callbacks [] cache = cache"
| "run_callbacks (InvokeOnClose key # effs) cache = run_callbacks effs (cache(key := None))"
| "run_callbacks (e # effs) cache = run_callbacks effs cache"

text \<open>
  A method call on the decorator stored under \<open>ref\<close>: the decorator is updated in the store
  and its callbacks act on the cache. A reference that holds no decorator leaves the state as
  it is.
\<close>

definition call_on :: "module_state \<Rightarrow> nat \<Rightarrow> method_call \<Rightarrow> module_state \<times> effect list" where
  "call_on ms ref c =
     (case store ms ref of
        None \<Rightarrow> (ms, [])
      | Some this \<Rightarrow>
          (case fmm_call this c of
             (this', effs) \<Rightarrow>
               (ms\<lparr>store := (store ms)(ref \<mapsto> this'),
                   PRIMARY_MANAGER_CACHE := run_callbacks effs (PRIMARY_MANAGER_CACHE ms)\<rparr>,
                effs)))"

section \<open>A runtime for evaluating the model\<close>

text \<open>
  To run the model on concrete inputs the built-ins need concrete stand-ins. Keys are
  compared code unit by code unit. Values are printed as
  compact JSON (strings without escapes, integers in decimal), and the parser knows the
  bodies that the adapter's tests feed it, the empty object and the two booleans.
\<close>

fun compare_code_units :: "string \<Rightarrow> string \<Rightarrow> int" where
  "compare_code_units [] [] = 0"
| "compare_code_units [] (y # ys) = - 1"
| "compare_code_units (x # xs) [] = 1"
| "compare_code_units (x # xs) (y # ys) =
     (if (of_char x :: nat) < of_char y then - 1
      else if (of_char y :: nat) < of_char x then 1
      else compare_code_units xs ys)"

fun join_with :: "string \<Rightarrow> string list \<Rightarrow> string" where
  "join_with sep [] = []"
| "join_with sep [x] = x"
| "join_with sep (x # y # ys) = x @ sep @ join_with sep (y # ys)"

definition quoted :: "string \<Rightarrow> string" where
  "quoted s = [CHR 0x22] @ s @ [CHR 0x22]"

definition sample_NumberToString :: "jsnum \<Rightarrow> string" where
  "sample_NumberToString n =
     (case n of
        Finite r \<Rightarrow> (if r = of_int \<lfloor>r\<rfloor> then show_int \<lfloor>r\<rfloor> else ''NaN'')
      | NaN \<Rightarrow> ''NaN''
      | PosInfinity \<Rightarrow> ''Infinity''
      | NegInfinity \<Rightarrow> ''-Infinity'')"

function sample_stringify :: "jsvalue \<Rightarrow> string" where
  "sample_stringify JUndefined = ''null''"
| "sample_stringify JNull = ''null''"
| "sample_stringify (JBool b) = (if b then ''true'' else ''false'')"
| "sample_stringify (JNum n) = (case n of Finite r \<Rightarrow> sample_NumberToString n | _ \<Rightarrow> ''null'')"
| "sample_stringify (JStr s) = quoted s"
| "sample_stringify (JArr xs) = ''['' @ join_with '','' (map sample_stringify xs) @ '']''"
| "sample_stringify (JObj fs) =
     ''{'' @ join_with '',''
       (map (\<lambda>kv. quoted (fst kv) @ '':'' @ snd kv)
         (property_order
           (map (\<lambda>kv. (fst kv, sample_stringify (snd kv)))
             (filter (\<lambda>kv. snd kv \<noteq> JUndefined) fs)))) @ ''}''"
  by pat_completeness auto
termination
  by (relation "measure size") (auto simp: size_entry size_field)

definition health_available_body :: string where
  \<open>health_available_body = ''{"ok":true,"status":{"backend_available":true}}''\<close>

definition health_unavailable_body :: string where
  \<open>health_unavailable_body = ''{"ok":true,"status":{"backend_available":false,"degraded":true}}''\<close>

definition search_body :: string where
  \<open>search_body =
     ''{"ok":true,"data":{"results":[{"id":"MEMORY.md","score":0.91,"snippet":"remember this"}]}}''\<close>

definition sample_parse :: "string \<Rightarrow> jsvalue option" where
  "sample_parse s =
     (if s = ''{}'' then Some (JObj [])
      else if s = ''true'' then Some (JBool True)
      else if s = ''false'' then Some (JBool False)
      else if s = health_available_body then
        Some (JObj [(''ok'', JBool True), (''status'', JObj [(''backend_available'', JBool True)])])
      else if s = health_unavailable_body then
        Some (JObj [(''ok'', JBool True),
                    (''status'', JObj [(''backend_available'', JBool False), (''degraded'', JBool True)])])
      else if s = search_body then
        Some (JObj [(''ok'', JBool True),
                    (''data'', JObj [(''results'',
                       JArr [JObj [(''id'', JStr ''MEMORY.md''), (''score'', JNum (Finite (91 / 100))),
                                   (''snippet'', JStr ''remember this'')]])])])
      else None)"

definition sample_runtime :: runtime where
  "sample_runtime =
     \<lparr>localeCompare = compare_code_units,
      JSON_stringify = sample_stringify,
      JSON_parse = sample_parse,
      StringToNumber = (\<lambda>s. if s \<noteq> [] \<and> list_all is_digit s then Finite (of_nat (dec_value s)) else NaN),
      NumberToString = sample_NumberToString,
      ObjectToString = (\<lambda>v. case v of JObj fs \<Rightarrow> Some ''[object Object]'' | _ \<Rightarrow> None)\<rparr>"

text \<open>
  In the engines that run this code \<^verbatim>\<open>localeCompare\<close> compares by the collation of the
  locale, which gives no weight to some code points: the control characters U+0000 to U+0008
  are ignored, so that the string "a" and the string "a" followed by U+0001 compare as equal.
  The second stand-in compares the strings without these code points, code unit by code
  unit; like the engines it ties strings that differ.
\<close>

definition ignorable :: "char \<Rightarrow> bool" where
  "ignorable c = ((of_char c :: nat) \<le> 8)"

definition collating_compare :: "string \<Rightarrow> string \<Rightarrow> int" where
  "collating_compare a b =
     compare_code_units (filter (\<lambda>c. \<not> ignorable c) a) (filter (\<lambda>c. \<not> ignorable c) b)"

definition collating_runtime :: runtime where
  "collating_runtime = sample_runtime\<lparr>localeCompare := collating_compare\<rparr>"

text \<open>
  Two resolved qmd configurations with the same content, written with the keys in different
  orders at both nesting levels.
\<close>

definition sample_config_a :: jsvalue where
  "sample_config_a =
     JObj [(''command'', JStr ''qmd''),
           (''limits'', JObj [(''maxResults'', JNum (Finite 6)), (''timeoutMs'', JNum (Finite 4000))]),
           (''paths'', JArr [JObj [(''name'', JStr ''notes''), (''path'', JStr ''/srv/notes'')]])]"

definition sample_config_b :: jsvalue where
  "sample_config_b =
     JObj [(''paths'', JArr [JObj [(''path'', JStr ''/srv/notes''), (''name'', JStr ''notes'')]]),
           (''limits'', JObj [(''timeoutMs'', JNum (Finite 4000)), (''maxResults'', JNum (Finite 6))]),
           (''command'', JStr ''qmd'')]"



section \<open>Notions used in the statements\<close>

text \<open>
  What the callbacks of \<^verbatim>\<open>exec\<close> have accumulated from a sequence of events on the two
  output streams, and the events that only deliver output (they do not settle the promise).
\<close>

fun stdout_of :: "child_event list \<Rightarrow> string" where
  "stdout_of [] = []"
| "stdout_of (StdoutData chunk # evs) = chunk @ stdout_of evs"
| "stdout_of (ev # evs) = stdout_of evs"

fun stderr_of :: "child_event list \<Rightarrow> string" where
  "stderr_of [] = []"
| "stderr_of (StderrData chunk # evs) = chunk @ stderr_of evs"
| "stderr_of (ev # evs) = stderr_of evs"

fun is_data :: "child_event \<Rightarrow> bool" where
  "is_data (StdoutData chunk) = True"
| "is_data (StderrData chunk) = True"
| "is_data ev = False"











text \<open>
  Effects of a decorator method by kind: a call of the \<^verbatim>\<open>onClose\<close> callback, a call on the
  primary. The two methods that reach the primary whatever the state: \<^verbatim>\<open>status\<close> (when no
  fallback has been built) and \<^verbatim>\<open>close\<close>.
\<close>

fun is_onClose :: "effect \<Rightarrow> bool" where
  "is_onClose (InvokeOnClose key) = True"
| "is_onClose e = False"





text \<open>The parsed form of \<open>search_body\<close>.\<close>

definition sample_search_response :: jsvalue where
  "sample_search_response =
     JObj [(''ok'', JBool True),
           (''data'', JObj [(''results'',
              JArr [JObj [(''id'', JStr ''MEMORY.md''), (''score'', JNum (Finite (91 / 100))),
                          (''snippet'', JStr ''remember this'')]])])]"


text \<open>
  Collaborators, calls and decorators of the scenarios that the module's tests run: a primary
  whose search fails once with "qmd query failed", the builtin index as fallback.
\<close>

definition sample_primary :: manager_handle where
  "sample_primary = \<lparr>hid = 1, hasSync = True, hasClose = True\<rparr>"

definition sample_builtin :: manager_handle where
  "sample_builtin = \<lparr>hid = 2, hasSync = True, hasClose = True\<rparr>"

definition sample_hit :: MemorySearchResult where
  "sample_hit = \<lparr>path = ''MEMORY.md'', startLine = 1, endLine = 1, score = Finite 1,
                  snippet = ''fallback'', source = ''memory''\<rparr>"


definition sample_decorator :: FallbackMemoryManager where
  "sample_decorator = new_FallbackMemoryManager ''qmd'' sample_primary (Some ''main:qmd:{}'')"

text \<open>A search that the primary fails, with the builtin index as fallback, and one without.\<close>

definition failing_search :: method_call where
  "failing_search =
     Search ''hello'' None (Inl ''qmd query failed'') (Inr (Some sample_builtin)) (Inr [sample_hit])"


definition degraded_decorator :: FallbackMemoryManager where
  "degraded_decorator =
     \<lparr>backendName = ''qmd'', primary = sample_primary, onClose = Some ''main:qmd:{}'',
      fallback = Some sample_builtin, primaryFailed = True, lastError = Some ''qmd query failed'',
      cacheEvicted = True\<rparr>"

definition degraded_decorator_no_fallback :: FallbackMemoryManager where
  "degraded_decorator_no_fallback =
     \<lparr>backendName = ''qmd'', primary = sample_primary, onClose = Some ''main:qmd:{}'',
      fallback = None, primaryFailed = True, lastError = Some ''qmd query failed'',
      cacheEvicted = True\<rparr>"

definition later_calls :: "method_call list" where
  "later_calls =
     [ReadFile [(''relPath'', JStr ''MEMORY.md'')] (Inr \<lparr>file_text = ''primary'', file_path = ''MEMORY.md''\<rparr>)
        (Inr (Some sample_builtin)) (Inr \<lparr>file_text = [], file_path = ''MEMORY.md''\<rparr>),
      Search ''again'' None (Inr []) (Inr (Some sample_builtin)) (Inr [sample_hit]),
      Sync None (Inr ()) (Inr (Some sample_builtin)) (Inr ()),
      ProbeEmbedding (Inr \<lparr>ok = True, error = None\<rparr>) (Inr (Some sample_builtin))
        (Inr \<lparr>ok = True, error = None\<rparr>),
      ProbeVector (Inr True) (Inr (Some sample_builtin)) (Inr True)]"

definition sample_qmd_resolved :: "jsvalue \<Rightarrow> resolved_config" where
  "sample_qmd_resolved config = \<lparr>backend = ''qmd'', qmd = config, engram = JUndefined\<rparr>"

definition sample_engram_resolved :: resolved_config where
  "sample_engram_resolved =
     \<lparr>backend = ''engram'', qmd = JUndefined,
      engram = JObj [(''command'', JStr ''engram-openclaw-adapter''), (''timeoutMs'', JNum (Finite 4000))]\<rparr>"



definition sample_key :: string where
  "sample_key = buildPrimaryCacheKey sample_runtime ''main'' ''qmd'' sample_config_a"

definition first_decorator :: FallbackMemoryManager where
  "first_decorator = new_FallbackMemoryManager ''qmd'' sample_primary (Some sample_key)"

text \<open>
  The module state after a first acquisition, a failed search on the decorator it returned
  and a second acquisition: the second decorator occupies the key.
\<close>

definition stale_state :: module_state where
  "stale_state =
     \<lparr>PRIMARY_MANAGER_CACHE = [sample_key \<mapsto> 1],
      store = [0 \<mapsto> fst (fmm_call first_decorator failing_search), 1 \<mapsto> first_decorator],
      allocated = 2\<rparr>"



text \<open>A call that is suspended in \<^verbatim>\<open>search\<close> between the degrade and the eviction.\<close>

fun closing_primary :: "progress \<Rightarrow> bool" where
  "closing_primary (Suspended (AwaitPrimaryClose query opts)) = True"
| "closing_primary p = False"


text \<open>
  Interleavings: two searches started one after the other before either is resumed; a
  search that the primary has failed, suspended at the \<^verbatim>\<open>await\<close> of the primary's
  \<^verbatim>\<open>close\<close>; a \<^verbatim>\<open>close\<close> started as call number \<open>n\<close> and run to its end; and two
  searches on a degraded decorator that both get a handle from the factory.
\<close>

definition two_searches :: "event list" where
  "two_searches = [Begin (ICall (KSearch ''hello'' None)), Begin (ICall (KSearch ''again'' None))]"

definition degrading_search_begun :: "event list" where
  "degrading_search_begun =
     [Begin (ICall (KSearch ''hello'' None)), Resume 0 (Answered (Inl ''qmd query failed''))]"


definition second_builtin :: manager_handle where
  "second_builtin = \<lparr>hid = 3, hasSync = True, hasClose = True\<rparr>"

definition two_constructions :: "event list" where
  "two_constructions =
     two_searches @
     [Resume 0 (Built (Inr (Some sample_builtin))), Resume 1 (Built (Inr (Some second_builtin)))]"


section \<open>Verification\<close>

subsection \<open>Sorting the keys\<close>

lemma set_insort_cmp: "set (insort_cmp cmp x ys) = insert x (set ys)"
  by (induction ys) auto

lemma set_toSorted: "set (toSorted cmp xs) = set xs"
  by (induction xs) (auto simp: toSorted_def set_insort_cmp)

lemma distinct_insort_cmp: "distinct (insort_cmp cmp x ys) = (x \<notin> set ys \<and> distinct ys)"
  by (induction ys) (auto simp: set_insort_cmp)

lemma distinct_toSorted: "distinct (toSorted cmp xs) = distinct xs"
  by (induction xs) (auto simp: toSorted_def distinct_insort_cmp set_toSorted[unfolded toSorted_def])

lemma sorted_insort_on:
  assumes "linear_on cmp ks" "x \<in> set ks" "set ys \<subseteq> set ks"
    and "sorted_wrt (\<lambda>a b. cmp a b \<le> 0) ys"
  shows "sorted_wrt (\<lambda>a b. cmp a b \<le> 0) (insort_cmp cmp x ys)"
  using assms(3,4)
proof (induction ys)
  case Nil
  then show ?case by simp
next
  case (Cons y ys)
  from Cons.prems(1) have y: "y \<in> set ks" and ys: "set ys \<subseteq> set ks" by simp_all
  from assms(1,2) y have tot: "cmp x y \<le> 0 \<or> cmp y x \<le> 0"
    unfolding linear_on_def by blast
  have tr: "cmp x y \<le> 0 \<Longrightarrow> cmp y c \<le> 0 \<Longrightarrow> cmp x c \<le> 0" if "c \<in> set ys" for c
    using assms(1,2) y ys that unfolding linear_on_def by blast
  show ?case
  proof (cases "cmp x y \<le> 0")
    case True
    with Cons.prems(2) tr show ?thesis by auto
  next
    case False
    with tot have "cmp y x \<le> 0" by simp
    with False Cons.IH[OF ys] Cons.prems(2) show ?thesis by (auto simp: set_insort_cmp)
  qed
qed

lemma sorted_toSorted_on:
  "linear_on cmp ks \<Longrightarrow> set xs \<subseteq> set ks \<Longrightarrow> sorted_wrt (\<lambda>a b. cmp a b \<le> 0) (toSorted cmp xs)"
proof (induction xs)
  case Nil
  then show ?case by (simp add: toSorted_def)
next
  case (Cons x xs)
  then have "sorted_wrt (\<lambda>a b. cmp a b \<le> 0) (toSorted cmp xs)" by simp
  with Cons.prems have "sorted_wrt (\<lambda>a b. cmp a b \<le> 0) (insort_cmp cmp x (toSorted cmp xs))"
    by (intro sorted_insort_on[of cmp ks]) (simp_all add: set_toSorted)
  then show ?case by (simp add: toSorted_def)
qed

lemma sorted_distinct_unique_on:
  assumes "linear_on cmp ks"
  shows "set xs \<subseteq> set ks \<Longrightarrow> sorted_wrt (\<lambda>a b. cmp a b \<le> 0) xs \<Longrightarrow>
         sorted_wrt (\<lambda>a b. cmp a b \<le> 0) ys \<Longrightarrow>
         distinct xs \<Longrightarrow> distinct ys \<Longrightarrow> set xs = set ys \<Longrightarrow> xs = ys"
proof (induction xs arbitrary: ys)
  case Nil
  then show ?case by simp
next
  case (Cons x xs)
  from Cons.prems obtain y ys' where ys: "ys = y # ys'" by (cases ys) auto
  from Cons.prems ys have xk: "x \<in> set ks" and yk: "y \<in> set ks" by auto
  have anti: "cmp x y \<le> 0 \<Longrightarrow> cmp y x \<le> 0 \<Longrightarrow> x = y"
    using assms xk yk unfolding linear_on_def by blast
  have "x = y"
  proof (rule ccontr)
    assume ne: "x \<noteq> y"
    with Cons.prems ys have "x \<in> set ys'" "y \<in> set xs" by auto
    with Cons.prems ys have "cmp y x \<le> 0" "cmp x y \<le> 0" by auto
    with anti ne show False by blast
  qed
  moreover from Cons.prems ys \<open>x = y\<close> have "set xs = set ys'" by auto
  ultimately show ?case using Cons ys by auto
qed

lemma toSorted_cong_on:
  assumes "linear_on cmp ks" "set xs \<subseteq> set ks" "distinct xs" "distinct ys" "set xs = set ys"
  shows "toSorted cmp xs = toSorted cmp ys"
proof (rule sorted_distinct_unique_on[OF assms(1)])
  show "set (toSorted cmp xs) \<subseteq> set ks" using assms(2) by (simp add: set_toSorted)
  show "sorted_wrt (\<lambda>a b. cmp a b \<le> 0) (toSorted cmp xs)"
    using assms(1,2) by (rule sorted_toSorted_on)
  show "sorted_wrt (\<lambda>a b. cmp a b \<le> 0) (toSorted cmp ys)"
    using assms(1,2,5) by (intro sorted_toSorted_on[of cmp ks]) simp_all
qed (use assms in \<open>simp_all add: distinct_toSorted set_toSorted\<close>)

lemma set_property_order: "set (property_order fs) = set fs"
  by (auto simp: property_order_def)

lemma distinct_property_order:
  "distinct (map fst fs) \<Longrightarrow> distinct (map fst (property_order fs))"
  by (auto simp: property_order_def distinct_map intro: inj_on_subset)

lemma set_Object_keys: "set (Object_keys fs) = set (map fst fs)"
  by (simp add: Object_keys_def set_property_order)

lemma distinct_Object_keys: "distinct (map fst fs) \<Longrightarrow> distinct (Object_keys fs)"
  by (simp add: Object_keys_def distinct_property_order)

lemma get_prop_mem:
  "key \<in> set (map fst fs) \<Longrightarrow> (key, get_prop fs key) \<in> set fs"
  by (auto simp: get_prop_def weak_map_of_SomeI map_of_eq_None_iff split: option.splits dest: map_of_SomeD)

lemma map_list_all2_eq:
  "list_all2 R xs ys \<Longrightarrow> (\<And>x y. x \<in> set xs \<Longrightarrow> R x y \<Longrightarrow> f x = f y) \<Longrightarrow> map f xs = map f ys"
  by (induction rule: list_all2_induct) auto

lemma sortValue_keys_ordered:
  "keys_ordered rt a \<Longrightarrow> struct_eq a b \<Longrightarrow> sortValue rt a = sortValue rt b"
proof (induction rt a arbitrary: b rule: sortValue.induct)
  case (1 rt entries)
  from "1.prems"(2) obtain ys where b: "b = JArr ys" and rel: "list_all2 struct_eq entries ys"
    by (cases b) auto
  have "map (sortValue rt) entries = map (sortValue rt) ys"
    using rel
  proof (rule map_list_all2_eq)
    fix x y assume "x \<in> set entries" "struct_eq x y"
    with "1.IH"[of x y] "1.prems"(1) show "sortValue rt x = sortValue rt y" by simp
  qed
  with b show ?case by simp
next
  case (2 rt fs)
  from "2.prems"(1) have lin: "linear_on (localeCompare rt) (map fst fs)"
    and sub: "\<And>kv. kv \<in> set fs \<Longrightarrow> keys_ordered rt (snd kv)" by simp_all
  from "2.prems"(2) obtain gs where b: "b = JObj gs" by (cases b) auto
  with "2.prems"(2) have dfs: "distinct (map fst fs)" and dgs: "distinct (map fst gs)"
    and keys: "set (map fst fs) = set (map fst gs)"
    and vals: "\<And>k v w. (k, v) \<in> set fs \<Longrightarrow> (k, w) \<in> set gs \<Longrightarrow> struct_eq v w"
    by auto
  let ?ks = "toSorted (localeCompare rt) (Object_keys fs)"
  have same: "toSorted (localeCompare rt) (Object_keys gs) = ?ks"
    by (rule sym, rule toSorted_cong_on[OF lin])
       (use dfs dgs keys in \<open>simp_all add: distinct_Object_keys set_Object_keys\<close>)
  have meq: "map (\<lambda>key. (key, sortValue rt (get_prop fs key))) ?ks =
        map (\<lambda>key. (key, sortValue rt (get_prop gs key))) ?ks"
  proof (rule map_cong[OF refl])
    fix key assume k: "key \<in> set ?ks"
    then have kf: "key \<in> set (map fst fs)" by (simp add: set_toSorted set_Object_keys)
    with keys have kg: "key \<in> set (map fst gs)" by simp
    from kf kg have se: "struct_eq (get_prop fs key) (get_prop gs key)"
      by (intro vals[of key]) (rule get_prop_mem, assumption)+
    from sub[OF get_prop_mem[OF kf]] have "keys_ordered rt (get_prop fs key)" by simp
    from "2.IH"[OF k this se]
    show "(key, sortValue rt (get_prop fs key)) = (key, sortValue rt (get_prop gs key))"
      by simp
  qed
  show ?case unfolding b by (simp only: sortValue.simps same meq)
qed auto

subsection \<open>C4: the fingerprint and the order of the keys\<close>

lemma cache_key_keys_ordered:
  "keys_ordered rt a \<Longrightarrow> struct_eq a b \<Longrightarrow>
   buildPrimaryCacheKey rt agentId kind a = buildPrimaryCacheKey rt agentId kind b"
  by (simp add: buildPrimaryCacheKey_def stableSerialize_def sortValue_keys_ordered)

lemma sample_configs_struct_eq: "struct_eq sample_config_a sample_config_b"
  by (simp add: sample_config_a_def sample_config_b_def)


lemma keys_ordered_sample_a: "keys_ordered collating_runtime sample_config_a"
  by (simp add: collating_runtime_def sample_runtime_def sample_config_a_def linear_on_def
        collating_compare_def ignorable_def)






subsection \<open>The promise of one subprocess invocation\<close>

lemma foldl_data:
  "list_all is_data pre \<Longrightarrow>
   foldl (on_event rt sub) st pre =
     st\<lparr>stdout := stdout st @ stdout_of pre, stderr := stderr st @ stderr_of pre\<rparr>"
proof (induction pre arbitrary: st)
  case Nil
  then show ?case by simp
next
  case (Cons ev pre)
  then show ?case by (cases ev) simp_all
qed

lemma on_event_settled:
  "settled st \<noteq> Pending \<Longrightarrow> settled (on_event rt sub st ev) = settled st"
  by (cases ev) (auto simp: settle_def Let_def split: option.splits)

lemma foldl_settled:
  "settled st \<noteq> Pending \<Longrightarrow> settled (foldl (on_event rt sub) st evs) = settled st"
  by (induction evs arbitrary: st) (simp_all add: on_event_settled)

lemma exec_data_then:
  assumes "list_all is_data pre"
    and "settled (on_event rt sub (exec_start\<lparr>stdout := stdout_of pre, stderr := stderr_of pre\<rparr>) ev) = r"
    and "r \<noteq> Pending"
  shows "exec rt sub (pre @ ev # post) = r"
proof -
  have "foldl (on_event rt sub) exec_start pre = exec_start\<lparr>stdout := stdout_of pre, stderr := stderr_of pre\<rparr>"
    using foldl_data[OF assms(1), of rt sub exec_start] by (simp add: exec_start_def)
  then show ?thesis
    using assms(2,3) by (simp add: exec_def foldl_settled)
qed

lemma exec_close_nonzero:
  "list_all is_data pre \<Longrightarrow> code \<noteq> Some 0 \<Longrightarrow>
   exec rt sub (pre @ CloseEvent code # post) =
     Rejected (Error (if stderr_of pre \<noteq> [] then stderr_of pre else exit_message code))"
  by (rule exec_data_then) (simp_all add: exec_start_def settle_def)

lemma exec_close_zero:
  "list_all is_data pre \<Longrightarrow>
   exec rt sub (pre @ CloseEvent (Some 0) # post) =
     (case JSON_parse rt (if stdout_of pre \<noteq> [] then stdout_of pre else ''{}'') of
        Some parsed \<Rightarrow> Resolved parsed
      | None \<Rightarrow> Rejected (Error ''engram adapter returned invalid JSON''))"
  by (rule exec_data_then) (simp_all add: exec_start_def settle_def split: option.splits)

lemma exec_error_event:
  "list_all is_data pre \<Longrightarrow> exec rt sub (pre @ ErrorEvent message # post) = Rejected (Error message)"
  by (rule exec_data_then) (simp_all add: exec_start_def settle_def)

lemma exec_timeout:
  "list_all is_data pre \<Longrightarrow>
   exec rt sub (pre @ TimeoutFired # post) = Rejected (Error (''engram adapter timeout ('' @ sub @ '')''))"
  by (rule exec_data_then) (simp_all add: exec_start_def settle_def)

lemma armed_or_settled_step:
  "settled st = Pending \<longrightarrow> timerArmed st \<Longrightarrow> \<not> is_data ev \<Longrightarrow> settled (on_event rt sub st ev) \<noteq> Pending"
  by (cases ev) (auto simp: settle_def Let_def split: option.splits)

lemma armed_inv_step:
  "settled st = Pending \<longrightarrow> timerArmed st \<Longrightarrow>
   settled (on_event rt sub st ev) = Pending \<longrightarrow> timerArmed (on_event rt sub st ev)"
  by (cases ev) (auto simp: settle_def Let_def split: option.splits)

lemma foldl_settles:
  "settled st = Pending \<longrightarrow> timerArmed st \<Longrightarrow> \<not> list_all is_data evs \<Longrightarrow>
   settled (foldl (on_event rt sub) st evs) \<noteq> Pending"
proof (induction evs arbitrary: st)
  case Nil
  then show ?case by simp
next
  case (Cons ev evs)
  show ?case
  proof (cases "is_data ev")
    case True
    with Cons.prems have "\<not> list_all is_data evs" by simp
    with Cons.IH[OF armed_inv_step[OF Cons.prems(1)]] show ?thesis by simp
  next
    case False
    from armed_or_settled_step[OF Cons.prems(1) False]
    have "settled (on_event rt sub st ev) \<noteq> Pending" .
    then show ?thesis by (simp add: foldl_settled)
  qed
qed

lemma exec_settles: "\<not> list_all is_data events \<Longrightarrow> exec rt sub events \<noteq> Pending"
  unfolding exec_def by (rule foldl_settles) (simp_all add: exec_start_def)

subsection \<open>The sample runtime on the sample bodies\<close>

lemma sample_parse_simps:
  "JSON_parse sample_runtime [] = None"
  "JSON_parse sample_runtime ''{}'' = Some (JObj [])"
  "JSON_parse sample_runtime ''true'' = Some (JBool True)"
  "JSON_parse sample_runtime ''false'' = Some (JBool False)"
  "JSON_parse sample_runtime ''<html>'' = None"
  by (simp_all add: sample_runtime_def sample_parse_def health_available_body_def
        health_unavailable_body_def search_body_def)

lemma show_int_2: "show_int 2 = ''2''"
  by code_simp

lemma sample_parse_bodies:
  "JSON_parse sample_runtime health_available_body =
     Some (JObj [(''ok'', JBool True), (''status'', JObj [(''backend_available'', JBool True)])])"
  "JSON_parse sample_runtime health_unavailable_body =
     Some (JObj [(''ok'', JBool True),
                 (''status'', JObj [(''backend_available'', JBool False), (''degraded'', JBool True)])])"
  "JSON_parse sample_runtime search_body = Some sample_search_response"
  by (simp_all add: sample_runtime_def sample_parse_def health_available_body_def
        health_unavailable_body_def search_body_def sample_search_response_def)

lemma body_nonempty:
  "health_available_body \<noteq> []" "health_unavailable_body \<noteq> []" "search_body \<noteq> []"
  by (simp_all add: health_available_body_def health_unavailable_body_def search_body_def)


lemma exec_sample_health:
  "exec sample_runtime ''health'' [StdoutData health_available_body, CloseEvent (Some 0)] =
     Resolved (JObj [(''ok'', JBool True), (''status'', JObj [(''backend_available'', JBool True)])])"
  using exec_close_zero[of "[StdoutData health_available_body]" sample_runtime "''health''" "[]"]
  by (simp add: sample_parse_bodies body_nonempty)


lemma search_response_empty: "search_response rt (JObj []) = Inr []"
  by (simp add: search_response_def get_prop_def js_get_opt_def coalesce_def nullish_def)

lemma readFile_response_empty:
  "readFile_response rt relPath (JObj []) = Inr \<lparr>file_text = [], file_path = relPath\<rparr>"
  by (simp add: readFile_response_def get_prop_def js_get_opt_def coalesce_def nullish_def)

lemma create_cases:
  "create rt params events =
     (case exec rt ''health'' events of
        Pending \<Rightarrow> Pending
      | Rejected err \<Rightarrow> Resolved None
      | Resolved health \<Rightarrow>
          Resolved (if truthy health \<and> \<not> reports_unavailable health
                    then Some (create_options params) else None))"
  by (simp add: create_def split: promise.splits)


lemma js_get_Inr: "js_get v key = Inr x \<Longrightarrow> js_get_opt v key = x"
  by (simp add: js_get_opt_def)






subsection \<open>C7: failures of a subprocess invocation\<close>

text \<open>
  C7, as stated: a non-zero exit code makes the call fail with the accumulated standard error
  as message, or with "exited with code N" when that stream is empty; a zero exit code whose
  accumulated standard output is not parseable as JSON makes the call fail with the
  invalid-response error. The second half fails on an empty output: the empty string is not
  JSON, and the call succeeds, because \<^verbatim>\<open>stdout || "{}"\<close> parses \<^verbatim>\<open>"{}"\<close> in its place.
\<close>

theorem exec_unparseable_counterexample:
  "JSON_parse sample_runtime (stdout_of [CloseEvent (Some 0)]) = None \<and>
   exec sample_runtime ''search'' [CloseEvent (Some 0)] = Resolved (JObj [])"
  using exec_close_zero[of "[]" sample_runtime "''search''" "[]"]
  by (simp add: sample_parse_simps)

text \<open>
  C7, amended: when the \<^verbatim>\<open>close\<close> event is the first event to settle the call (only output
  was delivered before it), a non-zero exit code (or none, after a signal) rejects with the
  accumulated standard error, or with "engram adapter exited with code N" when that is
  empty; a zero exit code whose accumulated standard output is not empty and not parseable
  rejects with "engram adapter returned invalid JSON".
\<close>

theorem exec_close_failure:
  assumes "list_all is_data pre"
  shows "(code \<noteq> Some 0 \<longrightarrow>
            exec rt sub (pre @ CloseEvent code # post) =
              Rejected (Error (if stderr_of pre \<noteq> [] then stderr_of pre
                               else ''engram adapter exited with code '' @
                                    (case code of None \<Rightarrow> ''null'' | Some n \<Rightarrow> show_int n)))) \<and>
         (stdout_of pre \<noteq> [] \<and> JSON_parse rt (stdout_of pre) = None \<longrightarrow>
            exec rt sub (pre @ CloseEvent (Some 0) # post) =
              Rejected (Error ''engram adapter returned invalid JSON''))"
  using exec_close_nonzero[OF assms, of code rt sub post] exec_close_zero[OF assms, of rt sub post]
  by (simp add: exit_message_def)

theorem exec_close_failure_witness:
  "list_all is_data [StdoutData ''<html>'', StderrData ''adapter '', StderrData ''crashed''] \<and>
   exec sample_runtime ''search''
     ([StdoutData ''<html>'', StderrData ''adapter '', StderrData ''crashed''] @ [CloseEvent (Some 2)]) =
     Rejected (Error ''adapter crashed'') \<and>
   exec sample_runtime ''search'' ([] @ [CloseEvent (Some 2)]) =
     Rejected (Error ''engram adapter exited with code 2'') \<and>
   exec sample_runtime ''search'' ([StdoutData ''<html>''] @ [CloseEvent (Some 0)]) =
     Rejected (Error ''engram adapter returned invalid JSON'')"
  using exec_close_failure
          [of "[StdoutData ''<html>'', StderrData ''adapter '', StderrData ''crashed'']" "Some 2"
              sample_runtime "''search''" "[]"]
        exec_close_failure [of "[]" "Some 2" sample_runtime "''search''" "[]"]
        exec_close_failure [of "[StdoutData ''<html>'']" "Some 0" sample_runtime "''search''" "[]"]
  by (simp add: sample_parse_simps show_int_2)

subsection \<open>C10: an empty output is the empty response\<close>

text \<open>
  C10, as stated: every invocation whose process exits with code 0 having written no
  standard output succeeds with the empty response object. The call is settled by whichever
  comes first of the timer, the \<^verbatim>\<open>error\<close> event and the \<^verbatim>\<open>close\<close> event. When the timer
  expires before the \<^verbatim>\<open>close\<close> event is delivered, the call has failed with the timeout
  error, and the exit code 0 that \<^verbatim>\<open>close\<close> then reports changes nothing.
\<close>

theorem exec_timeout_before_close_counterexample:
  "stdout_of [TimeoutFired, CloseEvent (Some 0)] = [] \<and>
   exec sample_runtime ''search'' [TimeoutFired, CloseEvent (Some 0)] =
     Rejected (Error ''engram adapter timeout (search)'') \<and>
   search sample_runtime [TimeoutFired, CloseEvent (Some 0)] =
     Rejected (Error ''engram adapter timeout (search)'')"
proof -
  have e: "exec sample_runtime ''search'' [TimeoutFired, CloseEvent (Some 0)] =
             Rejected (Error ''engram adapter timeout (search)'')"
    using exec_timeout[of "[]" sample_runtime "''search''" "[CloseEvent (Some 0)]"] by simp
  show ?thesis by (simp add: e search_def)
qed

text \<open>
  C10, amended: when the \<^verbatim>\<open>close\<close> event is the first event to settle the call (only
  output was delivered before it), reports exit code 0, and no standard output was written,
  the call succeeds with the empty response object (\<^verbatim>\<open>"{}"\<close> is parsed in place of the
  empty body), so \<^verbatim>\<open>search\<close> returns the empty sequence and \<^verbatim>\<open>readFile\<close> the empty text,
  rather than failing with the invalid-response error. \<^verbatim>\<open>JSON.parse\<close> is a parameter; that
  it parses \<^verbatim>\<open>"{}"\<close> to the empty object is the hypothesis on it.
\<close>

theorem exec_empty_stdout_succeeds:
  assumes "list_all is_data pre" and "stdout_of pre = []"
    and "JSON_parse rt ''{}'' = Some (JObj [])"
  shows "exec rt sub (pre @ CloseEvent (Some 0) # post) = Resolved (JObj []) \<and>
         search rt (pre @ CloseEvent (Some 0) # post) = Resolved [] \<and>
         readFile rt relPath (pre @ CloseEvent (Some 0) # post) =
           Resolved \<lparr>file_text = [], file_path = relPath\<rparr>"
proof -
  have ex: "exec rt s (pre @ CloseEvent (Some 0) # post) = Resolved (JObj [])" for s
    using exec_close_zero[OF assms(1), of rt s post] assms(2,3) by simp
  show ?thesis
    by (simp add: ex search_def readFile_def search_response_empty readFile_response_empty)
qed

theorem exec_empty_stdout_succeeds_witness:
  "list_all is_data [StderrData ''note: index is empty''] \<and>
   stdout_of [StderrData ''note: index is empty''] = [] \<and>
   JSON_parse sample_runtime ''{}'' = Some (JObj []) \<and>
   exec sample_runtime ''flush'' ([StderrData ''note: index is empty''] @ [CloseEvent (Some 0)]) =
     Resolved (JObj []) \<and>
   search sample_runtime ([StderrData ''note: index is empty''] @ [CloseEvent (Some 0)]) = Resolved [] \<and>
   readFile sample_runtime ''MEMORY.md'' ([StderrData ''note: index is empty''] @ [CloseEvent (Some 0)]) =
     Resolved \<lparr>file_text = [], file_path = ''MEMORY.md''\<rparr>"
  using exec_empty_stdout_succeeds
          [of "[StderrData ''note: index is empty'']" sample_runtime "''flush''" "[]" "''MEMORY.md''"]
  by (simp add: sample_parse_simps)


subsection \<open>C5: construction declines without raising\<close>

text \<open>
  C5, as stated: \<^verbatim>\<open>create\<close> returns \<^verbatim>\<open>null\<close> whenever the health subprocess returns an invalid
  payload, and a live handle exactly when the health request completes with
  \<^verbatim>\<open>status.backend_available\<close> not equal to \<^verbatim>\<open>false\<close>. The bodies \<^verbatim>\<open>false\<close> and \<^verbatim>\<open>true\<close> both
  parse, neither is a response object and neither has a \<^verbatim>\<open>status.backend_available\<close> equal to
  \<^verbatim>\<open>false\<close>; \<^verbatim>\<open>create\<close> returns \<^verbatim>\<open>null\<close> for the first, by the guard \<^verbatim>\<open>!health\<close>, and a live
  handle for the second. So whether such a body counts as a completed request or as an invalid
  payload, one of the two contradicts the claim.
\<close>

theorem create_falsy_payload_counterexample:
  "exec sample_runtime ''health'' [StdoutData ''false'', CloseEvent (Some 0)] = Resolved (JBool False) \<and>
   js_get_opt (js_get_opt (JBool False) ''status'') ''backend_available'' \<noteq> JBool False \<and>
   create sample_runtime (Options ''/tmp/workspace'' (Some ''engram-openclaw-adapter'') (Some 2000))
     [StdoutData ''false'', CloseEvent (Some 0)] = Resolved None \<and>
   exec sample_runtime ''health'' [StdoutData ''true'', CloseEvent (Some 0)] = Resolved (JBool True) \<and>
   js_get_opt (js_get_opt (JBool True) ''status'') ''backend_available'' \<noteq> JBool False \<and>
   create sample_runtime (Options ''/tmp/workspace'' (Some ''engram-openclaw-adapter'') (Some 2000))
     [StdoutData ''true'', CloseEvent (Some 0)] =
     Resolved (Some \<lparr>workspaceDir = ''/tmp/workspace'', command = ''engram-openclaw-adapter'',
                      timeoutMs = 2000\<rparr>)"
proof -
  have f: "exec sample_runtime ''health'' [StdoutData ''false'', CloseEvent (Some 0)] = Resolved (JBool False)"
    using exec_close_zero[of "[StdoutData ''false'']" sample_runtime "''health''" "[]"]
    by (simp add: sample_parse_simps)
  have t: "exec sample_runtime ''health'' [StdoutData ''true'', CloseEvent (Some 0)] = Resolved (JBool True)"
    using exec_close_zero[of "[StdoutData ''true'']" sample_runtime "''health''" "[]"]
    by (simp add: sample_parse_simps)
  show ?thesis
    by (simp add: f t create_cases js_get_opt_def reports_unavailable_def make_options_def)
qed

text \<open>
  C5, amended: \<^verbatim>\<open>create\<close> never raises, and it returns once the health request settles. It
  returns a live handle exactly when the health request completes with a truthy response
  whose \<^verbatim>\<open>status?.backend_available\<close> is not \<^verbatim>\<open>false\<close>. It returns \<^verbatim>\<open>null\<close> when the process
  cannot be spawned, times out, exits non-zero, writes a body that does not parse, or writes
  a body that parses to a falsy value or reports \<^verbatim>\<open>backend_available: false\<close>.
\<close>

theorem create_absent_or_live:
  "create rt params events \<noteq> Rejected err \<and>
   (\<not> list_all is_data events \<longrightarrow> create rt params events \<noteq> Pending) \<and>
   (create rt params events = Resolved (Some mgr) \<longleftrightarrow>
      mgr = create_options params \<and>
      (\<exists>health. exec rt ''health'' events = Resolved health \<and> truthy health \<and>
         js_get_opt (js_get_opt health ''status'') ''backend_available'' \<noteq> JBool False)) \<and>
   (list_all is_data pre \<longrightarrow>
      create rt params (pre @ ErrorEvent message # post) = Resolved None \<and>
      create rt params (pre @ TimeoutFired # post) = Resolved None \<and>
      (code \<noteq> Some 0 \<longrightarrow> create rt params (pre @ CloseEvent code # post) = Resolved None) \<and>
      (JSON_parse rt (if stdout_of pre \<noteq> [] then stdout_of pre else ''{}'') = None \<longrightarrow>
         create rt params (pre @ CloseEvent (Some 0) # post) = Resolved None) \<and>
      (\<forall>health. JSON_parse rt (if stdout_of pre \<noteq> [] then stdout_of pre else ''{}'') = Some health \<and>
         (\<not> truthy health \<or>
          js_get_opt (js_get_opt health ''status'') ''backend_available'' = JBool False) \<longrightarrow>
         create rt params (pre @ CloseEvent (Some 0) # post) = Resolved None))"
proof (intro conjI impI allI)
  show "create rt params events \<noteq> Rejected err"
    by (simp add: create_cases split: promise.splits)
  show "create rt params events \<noteq> Pending" if "\<not> list_all is_data events"
    using exec_settles[OF that, of rt "''health''"] by (simp add: create_cases split: promise.splits)
  show "create rt params events = Resolved (Some mgr) \<longleftrightarrow>
      mgr = create_options params \<and>
      (\<exists>health. exec rt ''health'' events = Resolved health \<and> truthy health \<and>
         js_get_opt (js_get_opt health ''status'') ''backend_available'' \<noteq> JBool False)"
    by (auto simp: create_cases reports_unavailable_def split: promise.splits)
next
  assume d: "list_all is_data pre"
  show "create rt params (pre @ ErrorEvent message # post) = Resolved None"
    by (simp add: create_cases exec_error_event[OF d])
  show "create rt params (pre @ TimeoutFired # post) = Resolved None"
    by (simp add: create_cases exec_timeout[OF d])
  show "create rt params (pre @ CloseEvent code # post) = Resolved None" if "code \<noteq> Some 0"
    by (simp add: create_cases exec_close_nonzero[OF d that])
  show "create rt params (pre @ CloseEvent (Some 0) # post) = Resolved None"
    if "JSON_parse rt (if stdout_of pre \<noteq> [] then stdout_of pre else ''{}'') = None"
    using that by (simp add: create_cases exec_close_zero[OF d])
  show "create rt params (pre @ CloseEvent (Some 0) # post) = Resolved None"
    if "JSON_parse rt (if stdout_of pre \<noteq> [] then stdout_of pre else ''{}'') = Some health \<and>
         (\<not> truthy health \<or>
          js_get_opt (js_get_opt health ''status'') ''backend_available'' = JBool False)" for health
    using that by (auto simp: create_cases exec_close_zero[OF d] reports_unavailable_def)
qed
theorem create_absent_or_live_witness:
  "create sample_runtime (Options ''/tmp/workspace'' (Some ''engram-openclaw-adapter'') (Some 2000))
     [StdoutData health_available_body, CloseEvent (Some 0)] =
     Resolved (Some \<lparr>workspaceDir = ''/tmp/workspace'', command = ''engram-openclaw-adapter'',
                      timeoutMs = 2000\<rparr>) \<and>
   list_all is_data [StdoutData health_unavailable_body] \<and>
   create sample_runtime (Options ''/tmp/workspace'' (Some ''engram-openclaw-adapter'') (Some 2000))
     ([StdoutData health_unavailable_body] @ CloseEvent (Some 0) # []) = Resolved None \<and>
   create sample_runtime (Options ''/tmp/workspace'' (Some ''missing-adapter'') (Some 2000))
     ([] @ ErrorEvent ''spawn failed'' # [CloseEvent (Some (- 2))]) = Resolved None \<and>
   create sample_runtime (Options ''/tmp/workspace'' None None)
     ([] @ TimeoutFired # [CloseEvent None]) = Resolved None \<and>
   create sample_runtime (Options ''/tmp/workspace'' None None)
     ([StderrData ''no backend''] @ CloseEvent (Some 1) # []) = Resolved None"
proof -
  let ?p = "Options ''/tmp/workspace'' (Some ''engram-openclaw-adapter'') (Some 2000)"
  let ?h = "JObj [(''ok'', JBool True), (''status'', JObj [(''backend_available'', JBool True)])]"
  have live: "truthy ?h \<and> js_get_opt (js_get_opt ?h ''status'') ''backend_available'' \<noteq> JBool False"
    by (simp add: js_get_opt_def get_prop_def)
  have a: "create sample_runtime ?p [StdoutData health_available_body, CloseEvent (Some 0)] =
             Resolved (Some (create_options ?p))"
    using create_absent_or_live
            [of sample_runtime ?p "[StdoutData health_available_body, CloseEvent (Some 0)]" _
                "create_options ?p"]
          exec_sample_health live
    by blast
  have o: "create_options ?p = \<lparr>workspaceDir = ''/tmp/workspace'', command = ''engram-openclaw-adapter'',
                      timeoutMs = 2000\<rparr>"
    by (simp add: make_options_def)
  have u: "\<not> truthy (JObj [(''ok'', JBool True),
                 (''status'', JObj [(''backend_available'', JBool False), (''degraded'', JBool True)])]) \<or>
        js_get_opt (js_get_opt (JObj [(''ok'', JBool True),
                 (''status'', JObj [(''backend_available'', JBool False), (''degraded'', JBool True)])]) ''status'')
          ''backend_available'' = JBool False"
    by (simp add: js_get_opt_def get_prop_def)
  have b: "create sample_runtime ?p ([StdoutData health_unavailable_body] @ CloseEvent (Some 0) # []) = Resolved None"
    using create_absent_or_live
            [of sample_runtime ?p _ _ _ "[StdoutData health_unavailable_body]" _ "[]"]
          u sample_parse_bodies(2) body_nonempty(2)
    by simp
  have c: "create sample_runtime (Options ''/tmp/workspace'' (Some ''missing-adapter'') (Some 2000))
     ([] @ ErrorEvent ''spawn failed'' # [CloseEvent (Some (- 2))]) = Resolved None"
    using create_absent_or_live
            [of sample_runtime "Options ''/tmp/workspace'' (Some ''missing-adapter'') (Some 2000)" _ _ _
                "[]" "''spawn failed''" "[CloseEvent (Some (- 2))]"]
    by simp
  have d: "create sample_runtime (Options ''/tmp/workspace'' None None)
     ([] @ TimeoutFired # [CloseEvent None]) = Resolved None"
    using create_absent_or_live
            [of sample_runtime "Options ''/tmp/workspace'' None None" _ _ _ "[]" _ "[CloseEvent None]"]
    by simp
  have e: "create sample_runtime (Options ''/tmp/workspace'' None None)
     ([StderrData ''no backend''] @ CloseEvent (Some 1) # []) = Resolved None"
    using create_absent_or_live
            [of sample_runtime "Options ''/tmp/workspace'' None None" _ _ _ "[StderrData ''no backend'']"
                _ "[]" "Some 1"]
    by simp
  from a o b c d e show ?thesis by simp
qed

subsection \<open>C8: the result mapping of search\<close>




subsection \<open>The decorator's methods, case by case\<close>

lemma via_fallback_cases:
  "via_fallback this factory f w =
     (case fallback this of
        Some fb \<Rightarrow> (fst (f fb), this, snd (f fb))
      | None \<Rightarrow>
          (case factory of
             Inl message \<Rightarrow> (Inl message, this, [InvokeFactory])
           | Inr None \<Rightarrow> (w, this, [InvokeFactory])
           | Inr (Some fb) \<Rightarrow> (fst (f fb), this\<lparr>fallback := Some fb\<rparr>, InvokeFactory # snd (f fb))))"
  by (simp add: via_fallback_def ensureFallback_def split: option.splits sum.splits prod.splits)

lemma degrade_eq:
  "degrade this message =
     (this\<lparr>primaryFailed := True, lastError := Some message, cacheEvicted := True\<rparr>,
      (if hasClose (primary this) then [Delegate ViaPrimary (primary this) DClose] else []) @
      (if cacheEvicted this then []
       else (case onClose this of None \<Rightarrow> [] | Some key \<Rightarrow> [InvokeOnClose key])))"
  by (simp add: degrade_def evictCacheEntry_def Let_def)

lemma evict_eq:
  "evictCacheEntry this =
     (this\<lparr>cacheEvicted := True\<rparr>,
      if cacheEvicted this then []
      else (case onClose this of None \<Rightarrow> [] | Some key \<Rightarrow> [InvokeOnClose key]))"
  by (simp add: evictCacheEntry_def)

lemmas fmm_defs = fmm_search_def fmm_readFile_def fmm_status_def fmm_sync_def
  fmm_probeEmbeddingAvailability_def fmm_probeVectorAvailability_def fmm_close_def
  via_fallback_cases degrade_eq evict_eq Let_def



lemma call_onClose_budget:
  "length (filter is_onClose (snd (fmm_call this c))) +
     (if cacheEvicted (fst (fmm_call this c)) then 0 else 1) \<le>
   (if cacheEvicted this then 0 else 1)"
  by (cases c) (auto simp: fmm_defs split: option.splits sum.splits)


lemma call_degraded_lastError:
  "primaryFailed this \<longrightarrow> lastError this \<noteq> None \<Longrightarrow>
   primaryFailed (fst (fmm_call this c)) \<longrightarrow> lastError (fst (fmm_call this c)) \<noteq> None"
  by (cases c) (auto simp: fmm_defs split: option.splits sum.splits if_splits)

lemma call_fallback_kept:
  "fallback this = Some fb \<Longrightarrow>
   fallback (fst (fmm_call this c)) = Some fb \<and> InvokeFactory \<notin> set (snd (fmm_call this c))"
  by (cases c) (auto simp: fmm_defs split: option.splits sum.splits if_splits)

lemma call_evicted_no_onClose:
  "cacheEvicted this \<Longrightarrow> filter is_onClose (snd (fmm_call this c)) = []"
  by (cases c) (auto simp: fmm_defs split: option.splits sum.splits if_splits)

lemma fmm_run_Cons:
  "fmm_run this (c # cs) =
     (fst (fmm_run (fst (fmm_call this c)) cs),
      snd (fmm_call this c) @ snd (fmm_run (fst (fmm_call this c)) cs))"
  by (simp split: prod.splits)


lemma run_onClose_budget:
  "length (filter is_onClose (snd (fmm_run this cs))) +
     (if cacheEvicted (fst (fmm_run this cs)) then 0 else 1) \<le>
   (if cacheEvicted this then 0 else 1)"
proof (induction cs arbitrary: this)
  case Nil
  then show ?case by simp
next
  case (Cons c cs)
  obtain this' effs where c: "fmm_call this c = (this', effs)" by (cases "fmm_call this c")
  obtain this'' effs' where r: "fmm_run this' cs = (this'', effs')" by (cases "fmm_run this' cs")
  from call_onClose_budget[of this c] c
  have 1: "length (filter is_onClose effs) + (if cacheEvicted this' then 0 else 1) \<le>
           (if cacheEvicted this then 0 else 1)" by simp
  from Cons.IH[of this'] r
  have 2: "length (filter is_onClose effs') + (if cacheEvicted this'' then 0 else 1) \<le>
           (if cacheEvicted this' then 0 else 1)" by simp
  from 1 2 show ?case by (simp add: fmm_run_Cons c r del: fmm_run.simps split: if_splits)
qed


lemma run_degraded_lastError:
  "primaryFailed this \<longrightarrow> lastError this \<noteq> None \<Longrightarrow>
   primaryFailed (fst (fmm_run this cs)) \<longrightarrow> lastError (fst (fmm_run this cs)) \<noteq> None"
proof (induction cs arbitrary: this)
  case Nil
  then show ?case by simp
next
  case (Cons c cs)
  from Cons.IH[OF call_degraded_lastError[OF Cons.prems, of c]]
  show ?case by (simp add: fmm_run_Cons del: fmm_run.simps)
qed

lemma run_fallback_kept:
  "fallback this = Some fb \<Longrightarrow>
   fallback (fst (fmm_run this cs)) = Some fb \<and> InvokeFactory \<notin> set (snd (fmm_run this cs))"
proof (induction cs arbitrary: this)
  case Nil
  then show ?case by simp
next
  case (Cons c cs)
  from call_fallback_kept[OF Cons.prems, of c] Cons.IH[of "fst (fmm_call this c)"]
  show ?case by (simp add: fmm_run_Cons del: fmm_run.simps)
qed



lemma run_callbacks_none: "filter is_onClose effs = [] \<Longrightarrow> run_callbacks effs cache = cache"
  by (induction effs cache rule: run_callbacks.induct) (simp_all split: if_splits)

lemma call_on_Some:
  "store ms ref = Some this \<Longrightarrow>
   call_on ms ref c =
     (ms\<lparr>store := (store ms)(ref \<mapsto> fst (fmm_call this c)),
         PRIMARY_MANAGER_CACHE := run_callbacks (snd (fmm_call this c)) (PRIMARY_MANAGER_CACHE ms)\<rparr>,
      snd (fmm_call this c))"
  by (simp add: call_on_def split: prod.splits)

lemma call_on_evicted:
  "store ms ref = Some this \<Longrightarrow> cacheEvicted this \<Longrightarrow>
   PRIMARY_MANAGER_CACHE (fst (call_on ms ref c)) = PRIMARY_MANAGER_CACHE ms"
  using call_evicted_no_onClose[of this c]
  by (simp add: call_on_Some run_callbacks_none)

lemma new_not_failed:
  "\<not> primaryFailed (new_FallbackMemoryManager name prim cb)"
  "\<not> cacheEvicted (new_FallbackMemoryManager name prim cb)"
  "fallback (new_FallbackMemoryManager name prim cb) = None"
  by (simp_all add: new_FallbackMemoryManager_def)


lemma failing_search_degrades:
  "fmm_call sample_decorator failing_search =
     (degraded_decorator,
      [Delegate ViaPrimary sample_primary (DSearch ''hello'' None),
       Delegate ViaPrimary sample_primary DClose,
       InvokeOnClose ''main:qmd:{}'',
       InvokeFactory,
       Delegate ViaFallback sample_builtin (DSearch ''hello'' None)])"
  by (simp add: sample_decorator_def failing_search_def degraded_decorator_def
        new_FallbackMemoryManager_def sample_primary_def fmm_defs)



subsection \<open>Overlapping calls, step by step\<close>

text \<open>
  A call that runs through its steps alone does what the method's definition says: the same
  result, the same decorator afterwards, the same effects in the same order.
\<close>

lemma map_sum_id_Inl: "(map_sum id f x = Inl y) = (x = Inl y)"
  by (cases x) simp_all

lemma map_sum_id_Inr: "(map_sum id f x = Inr y) = (\<exists>z. x = Inr z \<and> y = f z)"
  by (cases x) auto

lemma alone_agrees:
  "alone this c = (Finished (result_of this c), fst (fmm_call this c), snd (fmm_call this c))"
proof (cases c)
  case (Search query opts pa fa fb)
  then show ?thesis
    by (cases pa; cases fa; cases "fallback this")
       (auto simp: alone_def ensure_begin_def fmm_defs via_fallback_def ensureFallback_def
          lastError_or_def evictCacheEntry_def Let_def
          split: option.splits sum.splits if_splits prod.splits)
next
  case (ReadFile params pa fa fb)
  then show ?thesis
    by (cases pa; cases fa; cases "fallback this")
       (auto simp: alone_def ensure_begin_def fmm_defs via_fallback_def ensureFallback_def
          lastError_or_def Let_def
          split: option.splits sum.splits if_splits prod.splits)
next
  case (Status ps fs)
  then show ?thesis
    by (auto simp: alone_def split: prod.splits)
next
  case (Sync params pa fa fb)
  then show ?thesis
    by (cases pa; cases fa; cases fb; cases "fallback this")
       (auto simp: alone_def ensure_begin_def fmm_defs via_fallback_def ensureFallback_def
          lastError_or_def Let_def
          split: option.splits sum.splits if_splits prod.splits)
next
  case (ProbeEmbedding pa fa fb)
  then show ?thesis
    by (cases pa; cases fa; cases "fallback this")
       (auto simp: alone_def ensure_begin_def fmm_defs via_fallback_def ensureFallback_def
          lastError_or_def Let_def
          split: option.splits sum.splits if_splits prod.splits)
next
  case (ProbeVector pa fa fb)
  then show ?thesis
    by (cases pa; cases fa; cases "fallback this")
       (auto simp: alone_def ensure_begin_def fmm_defs via_fallback_def ensureFallback_def
          lastError_or_def Let_def
          split: option.splits sum.splits if_splits prod.splits)
next
  case (Close pa fb)
  then show ?thesis
    by (cases pa; cases fb; cases "fallback this")
       (auto simp: alone_def fmm_defs evictCacheEntry_def Let_def
          split: option.splits sum.splits if_splits prod.splits)
qed

lemma search_alone:
  "alone this (Search query opts pa fa fb) =
     (Finished (map_sum id VSearch (fst (fmm_search this query opts pa fa fb))),
      snd (fmm_search this query opts pa fa fb))"
  by (simp add: alone_agrees)

text \<open>What one step keeps, and from there what every interleaving keeps.\<close>

lemma ensure_begin_eq:
  "ensure_begin this k =
     (if fallback this = None then (Suspended (AwaitFactory k), this, [InvokeFactory])
      else (Suspended (AwaitEnsured k (Inr (fallback this))), this, []))"
  by (simp add: ensure_begin_def split: option.splits)

lemma begin_keeps:
  "fst (snd (begin_call this call)) = this"
  "filter is_onClose (snd (snd (begin_call this call))) = []"
  "fallback this \<noteq> None \<Longrightarrow> InvokeFactory \<notin> set (snd (snd (begin_call this call)))"
  "\<not> closing_primary (fst (begin_call this call))"
  by (cases call; auto simp: ensure_begin_eq fmm_status_def split: prod.splits option.splits)+



lemma resume_fallback_stays:
  "fallback this \<noteq> None \<Longrightarrow>
   fallback (fst (snd (resume this p r))) \<noteq> None \<and>
   InvokeFactory \<notin> set (snd (snd (resume this p r)))"
  by (cases p)
     (auto simp: ensure_begin_eq evict_eq
        split: resumption.splits sum.splits option.splits continuation.splits)

lemma resume_lastError:
  "primaryFailed this \<longrightarrow> lastError this \<noteq> None \<Longrightarrow>
   primaryFailed (fst (snd (resume this p r))) \<longrightarrow> lastError (fst (snd (resume this p r))) \<noteq> None"
  by (cases p)
     (auto simp: ensure_begin_eq evict_eq
        split: resumption.splits sum.splits option.splits continuation.splits)


lemma step_Begin:
  "step st (Begin call) =
     (\<lparr>decorator = decorator st, in_flight = in_flight st @ [fst (begin_call (decorator st) call)]\<rparr>,
      snd (snd (begin_call (decorator st) call)))"
  using begin_keeps(1)[of "decorator st" call]
  by (cases "begin_call (decorator st) call") simp

lemma step_Resume:
  "n < length (in_flight st) \<Longrightarrow> in_flight st ! n = Suspended p \<Longrightarrow>
   step st (Resume n r) =
     (\<lparr>decorator = fst (snd (resume (decorator st) p r)),
       in_flight = (in_flight st)[n := fst (resume (decorator st) p r)]\<rparr>,
      snd (snd (resume (decorator st) p r)))"
  by (simp split: prod.splits)

lemma step_idle:
  "\<not> n < length (in_flight st) \<or> (\<exists>a. in_flight st ! n = Finished a) \<Longrightarrow>
   step st (Resume n r) = (st, [])"
  by auto

lemma step_cases:
  obtains (Begin) call where "ev = Begin call"
  | (Resume) n r p where "ev = Resume n r" "n < length (in_flight st)" "in_flight st ! n = Suspended p"
  | (Idle) n r where "ev = Resume n r" "step st ev = (st, [])"
proof (cases ev)
  case (Begin call)
  then show ?thesis by (rule that(1))
next
  case (Resume n r)
  show ?thesis
  proof (cases "n < length (in_flight st)")
    case True
    show ?thesis
    proof (cases "in_flight st ! n")
      case (Suspended p)
      from Resume True Suspended show ?thesis by (rule that(2))
    next
      case (Finished a)
      with Resume True have "step st ev = (st, [])" by simp
      with Resume show ?thesis by (rule that(3))
    qed
  next
    case False
    with Resume have "step st ev = (st, [])" by simp
    with Resume show ?thesis by (rule that(3))
  qed
qed



lemma step_fallback_stays:
  "fallback (decorator st) \<noteq> None \<Longrightarrow>
   fallback (decorator (fst (step st ev))) \<noteq> None \<and> InvokeFactory \<notin> set (snd (step st ev))"
proof (cases rule: step_cases[where ev = ev and st = st])
  case (Begin call)
  assume "fallback (decorator st) \<noteq> None"
  with Begin begin_keeps(3)[of "decorator st" call] show ?thesis
    by (simp add: step_Begin del: step.simps)
next
  case (Resume n r p)
  assume "fallback (decorator st) \<noteq> None"
  with Resume resume_fallback_stays[of "decorator st" p r] show ?thesis
    by (simp add: step_Resume del: step.simps)
next
  case (Idle n r)
  assume "fallback (decorator st) \<noteq> None"
  with Idle show ?thesis by simp
qed

lemma step_lastError:
  "primaryFailed (decorator st) \<longrightarrow> lastError (decorator st) \<noteq> None \<Longrightarrow>
   primaryFailed (decorator (fst (step st ev))) \<longrightarrow> lastError (decorator (fst (step st ev))) \<noteq> None"
proof (cases rule: step_cases[where ev = ev and st = st])
  case (Begin call)
  assume "primaryFailed (decorator st) \<longrightarrow> lastError (decorator st) \<noteq> None"
  with Begin show ?thesis by (simp add: step_Begin del: step.simps)
next
  case (Resume n r p)
  assume "primaryFailed (decorator st) \<longrightarrow> lastError (decorator st) \<noteq> None"
  with Resume resume_lastError[of "decorator st" p r] show ?thesis
    by (simp add: step_Resume del: step.simps)
next
  case (Idle n r)
  assume "primaryFailed (decorator st) \<longrightarrow> lastError (decorator st) \<noteq> None"
  with Idle show ?thesis by simp
qed




lemma run_events_Cons:
  "run_events st (ev # evs) =
     (fst (run_events (fst (step st ev)) evs),
      snd (step st ev) @ snd (run_events (fst (step st ev)) evs))"
  by (simp split: prod.splits)



lemma events_fallback_stays:
  "fallback (decorator st) \<noteq> None \<Longrightarrow>
   fallback (decorator (fst (run_events st evs))) \<noteq> None \<and>
   InvokeFactory \<notin> set (snd (run_events st evs))"
proof (induction evs arbitrary: st)
  case Nil
  then show ?case by simp
next
  case (Cons ev evs)
  from step_fallback_stays[OF Cons.prems, of ev] Cons.IH[of "fst (step st ev)"]
  show ?case by (simp add: run_events_Cons del: run_events.simps step.simps)
qed

lemma events_lastError:
  "primaryFailed (decorator st) \<longrightarrow> lastError (decorator st) \<noteq> None \<Longrightarrow>
   primaryFailed (decorator (fst (run_events st evs))) \<longrightarrow>
   lastError (decorator (fst (run_events st evs))) \<noteq> None"
proof (induction evs arbitrary: st)
  case Nil
  then show ?case by simp
next
  case (Cons ev evs)
  from Cons.IH[OF step_lastError[OF Cons.prems, of ev]]
  show ?case by (simp add: run_events_Cons del: run_events.simps step.simps)
qed



lemma degrading_search_begun_run:
  "run_events (fresh (new_FallbackMemoryManager name sample_primary cb)) degrading_search_begun =
     (\<lparr>decorator = (new_FallbackMemoryManager name sample_primary cb)
          \<lparr>primaryFailed := True, lastError := Some ''qmd query failed''\<rparr>,
       in_flight = [Suspended (AwaitPrimaryClose ''hello'' None)]\<rparr>,
      [Delegate ViaPrimary sample_primary (DSearch ''hello'' None),
       Delegate ViaPrimary sample_primary DClose])"
  by (simp add: fresh_def degrading_search_begun_def new_FallbackMemoryManager_def sample_primary_def)



subsection \<open>The cache and the request object\<close>

lemma truthy_struct_eq: "struct_eq a b \<Longrightarrow> truthy a \<Longrightarrow> truthy b"
  by (cases a; cases b) simp_all

lemma get_qmd_hit:
  "backend r = ''qmd'' \<Longrightarrow> truthy (qmd r) \<Longrightarrow>
   PRIMARY_MANAGER_CACHE ms (buildPrimaryCacheKey rt agentId ''qmd'' (qmd r)) = Some d \<Longrightarrow>
   getMemorySearchManager rt ms agentId r qc ec ig =
     (\<lparr>manager = Some (Decorator d), error_message = None\<rparr>, ms, [])"
  by (simp add: getMemorySearchManager_def qmd_branch_def)

lemma get_qmd_decorator:
  assumes "backend r = ''qmd''"
    and "getMemorySearchManager rt ms agentId r qc ec ig = (res, ms', cs)"
    and "manager res = Some (Decorator d)"
  shows "truthy (qmd r) \<and>
         PRIMARY_MANAGER_CACHE ms' (buildPrimaryCacheKey rt agentId ''qmd'' (qmd r)) = Some d \<and>
         res = \<lparr>manager = Some (Decorator d), error_message = None\<rparr> \<and>
         length (filter (\<lambda>c. c = QmdCreate) cs) \<le> 1"
  using assms
  by (auto simp: getMemorySearchManager_def qmd_branch_def engram_branch_def builtin_branch_def
        allocate_def Let_def
      split: if_splits option.splits sum.splits prod.splits)

lemma truthy_sample_config: "truthy sample_config_a" "truthy sample_config_b"
  by (simp_all add: sample_config_a_def sample_config_b_def)

lemma sample_first_call:
  "getMemorySearchManager sample_runtime initial_state ''main'' (sample_qmd_resolved sample_config_a)
     (Inr (Some sample_primary)) (Inr None) (Inr (Some sample_builtin)) =
   (\<lparr>manager = Some (Decorator 0), error_message = None\<rparr>,
    \<lparr>PRIMARY_MANAGER_CACHE =
       [buildPrimaryCacheKey sample_runtime ''main'' ''qmd'' sample_config_a \<mapsto> 0],
      store = [0 \<mapsto> new_FallbackMemoryManager ''qmd'' sample_primary
                 (Some (buildPrimaryCacheKey sample_runtime ''main'' ''qmd'' sample_config_a))],
      allocated = 1\<rparr>,
    [QmdCreate])"
  by (simp add: getMemorySearchManager_def qmd_branch_def allocate_def initial_state_def
        sample_qmd_resolved_def truthy_sample_config Let_def)








lemma get_engram_new:
  "backend r = ''engram'' \<Longrightarrow> truthy (engram r) \<Longrightarrow>
   getMemorySearchManager rt ms agentId r qc (Inr (Some prim)) ig =
     (\<lparr>manager = Some (Decorator (allocated ms)), error_message = None\<rparr>,
      ms\<lparr>store := (store ms)(allocated ms \<mapsto> new_FallbackMemoryManager ''engram'' prim None),
         allocated := Suc (allocated ms)\<rparr>,
      [EngramCreate])"
  by (simp add: getMemorySearchManager_def qmd_branch_def engram_branch_def allocate_def)

lemma get_engram_constructs:
  "backend r = ''engram'' \<Longrightarrow> truthy (engram r) \<Longrightarrow>
   EngramCreate \<in> set (snd (snd (getMemorySearchManager rt ms agentId r qc ec ig)))"
  by (auto simp: getMemorySearchManager_def qmd_branch_def engram_branch_def allocate_def
        split: sum.splits option.splits)

lemma collating_first_call:
  "getMemorySearchManager collating_runtime initial_state ''main'' (sample_qmd_resolved sample_config_a)
     (Inr (Some sample_primary)) (Inr None) (Inr (Some sample_builtin)) =
   (\<lparr>manager = Some (Decorator 0), error_message = None\<rparr>,
    \<lparr>PRIMARY_MANAGER_CACHE =
       [buildPrimaryCacheKey collating_runtime ''main'' ''qmd'' sample_config_a \<mapsto> 0],
      store = [0 \<mapsto> new_FallbackMemoryManager ''qmd'' sample_primary
                 (Some (buildPrimaryCacheKey collating_runtime ''main'' ''qmd'' sample_config_a))],
      allocated = 1\<rparr>,
    [QmdCreate])"
  by (simp add: getMemorySearchManager_def qmd_branch_def allocate_def initial_state_def
        sample_qmd_resolved_def truthy_sample_config Let_def)


subsection \<open>C1: a cached qmd handle is reused\<close>

text \<open>
  C1, as stated: for every two calls to acquire a provider handle with the same agentId,
  providerKind and structurally equal resolved config, the second call returns the identical
  decorator and the provider constructor is invoked at most once across both calls. For the
  engram provider kind the code has no cache: each call invokes \<^verbatim>\<open>EngramMemoryManager.create\<close>
  and wraps the result in a new decorator.
\<close>

theorem engram_not_cached_counterexample:
  "getMemorySearchManager sample_runtime initial_state ''main'' sample_engram_resolved
     (Inr None) (Inr (Some sample_primary)) (Inr (Some sample_builtin)) =
   (\<lparr>manager = Some (Decorator 0), error_message = None\<rparr>,
    \<lparr>PRIMARY_MANAGER_CACHE = Map.empty,
      store = [0 \<mapsto> new_FallbackMemoryManager ''engram'' sample_primary None],
      allocated = 1\<rparr>,
    [EngramCreate]) \<and>
   getMemorySearchManager sample_runtime
     \<lparr>PRIMARY_MANAGER_CACHE = Map.empty,
      store = [0 \<mapsto> new_FallbackMemoryManager ''engram'' sample_primary None],
      allocated = 1\<rparr>
     ''main'' sample_engram_resolved
     (Inr None) (Inr (Some sample_primary)) (Inr (Some sample_builtin)) =
   (\<lparr>manager = Some (Decorator 1), error_message = None\<rparr>,
    \<lparr>PRIMARY_MANAGER_CACHE = Map.empty,
      store = [0 \<mapsto> new_FallbackMemoryManager ''engram'' sample_primary None,
               1 \<mapsto> new_FallbackMemoryManager ''engram'' sample_primary None],
      allocated = 2\<rparr>,
    [EngramCreate])"
  by (simp add: getMemorySearchManager_def qmd_branch_def engram_branch_def allocate_def
        initial_state_def sample_engram_resolved_def Let_def)

text \<open>
  C1, amended: for the qmd provider kind, when a call with agentId and resolved config
  returns a decorator (from the cache or newly constructed), the next call with the same
  agentId and a structurally equal config returns the identical decorator, changes nothing
  and invokes no constructor, so that \<^verbatim>\<open>QmdMemoryManager.create\<close> is invoked at most once
  across both calls, provided that \<^verbatim>\<open>localeCompare\<close> orders the keys of each object of the
  first call's config linearly: on the keys of one object it is total and transitive and
  ties no two different keys. For the engram provider kind nothing is cached: every call
  invokes \<^verbatim>\<open>EngramMemoryManager.create\<close>, and a call whose construction succeeds returns a
  newly allocated decorator and leaves the cache as it is.
\<close>

theorem qmd_handle_cached:
  "(keys_ordered rt (qmd r1) \<and> backend r1 = ''qmd'' \<and> backend r2 = ''qmd'' \<and>
    struct_eq (qmd r1) (qmd r2) \<and>
    getMemorySearchManager rt ms agentId r1 qc1 ec1 ig1 = (res1, ms1, cs1) \<and>
    manager res1 = Some (Decorator d) \<longrightarrow>
      getMemorySearchManager rt ms1 agentId r2 qc2 ec2 ig2 = (res1, ms1, []) \<and>
      length (filter (\<lambda>c. c = QmdCreate) cs1) \<le> 1) \<and>
   (backend r = ''engram'' \<and> truthy (engram r) \<longrightarrow>
      EngramCreate \<in> set (snd (snd (getMemorySearchManager rt ms agentId r qc ec ig))) \<and>
      getMemorySearchManager rt ms agentId r qc (Inr (Some prim)) ig =
        (\<lparr>manager = Some (Decorator (allocated ms)), error_message = None\<rparr>,
         ms\<lparr>store := (store ms)(allocated ms \<mapsto> new_FallbackMemoryManager ''engram'' prim None),
            allocated := Suc (allocated ms)\<rparr>,
         [EngramCreate]))"
proof (intro conjI impI)
  assume a: "keys_ordered rt (qmd r1) \<and> backend r1 = ''qmd'' \<and> backend r2 = ''qmd'' \<and>
    struct_eq (qmd r1) (qmd r2) \<and>
    getMemorySearchManager rt ms agentId r1 qc1 ec1 ig1 = (res1, ms1, cs1) \<and>
    manager res1 = Some (Decorator d)"
  then have ko: "keys_ordered rt (qmd r1)" and b1: "backend r1 = ''qmd''" and b2: "backend r2 = ''qmd''"
    and se: "struct_eq (qmd r1) (qmd r2)"
    and g: "getMemorySearchManager rt ms agentId r1 qc1 ec1 ig1 = (res1, ms1, cs1)"
    and m: "manager res1 = Some (Decorator d)"
    by simp_all
  from get_qmd_decorator[OF b1 g m]
  have t: "truthy (qmd r1)"
    and c: "PRIMARY_MANAGER_CACHE ms1 (buildPrimaryCacheKey rt agentId ''qmd'' (qmd r1)) = Some d"
    and r: "res1 = \<lparr>manager = Some (Decorator d), error_message = None\<rparr>"
    and n: "length (filter (\<lambda>c. c = QmdCreate) cs1) \<le> 1"
    by simp_all
  from cache_key_keys_ordered[OF ko se] c
  have c2: "PRIMARY_MANAGER_CACHE ms1 (buildPrimaryCacheKey rt agentId ''qmd'' (qmd r2)) = Some d"
    by simp
  from get_qmd_hit[OF b2 truthy_struct_eq[OF se t] c2] r
  show "getMemorySearchManager rt ms1 agentId r2 qc2 ec2 ig2 = (res1, ms1, [])" by simp
  from n show "length (filter (\<lambda>c. c = QmdCreate) cs1) \<le> 1" .
next
  assume "backend r = ''engram'' \<and> truthy (engram r)"
  then show "EngramCreate \<in> set (snd (snd (getMemorySearchManager rt ms agentId r qc ec ig)))"
    by (simp add: get_engram_constructs)
next
  assume "backend r = ''engram'' \<and> truthy (engram r)"
  then show "getMemorySearchManager rt ms agentId r qc (Inr (Some prim)) ig =
        (\<lparr>manager = Some (Decorator (allocated ms)), error_message = None\<rparr>,
         ms\<lparr>store := (store ms)(allocated ms \<mapsto> new_FallbackMemoryManager ''engram'' prim None),
            allocated := Suc (allocated ms)\<rparr>,
         [EngramCreate])"
    by (simp add: get_engram_new)
qed

theorem qmd_handle_cached_witness:
  "keys_ordered collating_runtime (qmd (sample_qmd_resolved sample_config_a)) \<and>
   backend (sample_qmd_resolved sample_config_a) = ''qmd'' \<and>
   backend (sample_qmd_resolved sample_config_b) = ''qmd'' \<and>
   struct_eq (qmd (sample_qmd_resolved sample_config_a)) (qmd (sample_qmd_resolved sample_config_b)) \<and>
   manager (fst (getMemorySearchManager collating_runtime initial_state ''main''
     (sample_qmd_resolved sample_config_a)
     (Inr (Some sample_primary)) (Inr None) (Inr (Some sample_builtin)))) = Some (Decorator 0) \<and>
   getMemorySearchManager collating_runtime
     (fst (snd (getMemorySearchManager collating_runtime initial_state ''main''
        (sample_qmd_resolved sample_config_a)
        (Inr (Some sample_primary)) (Inr None) (Inr (Some sample_builtin)))))
     ''main'' (sample_qmd_resolved sample_config_b)
     (Inr (Some sample_primary)) (Inr None) (Inr (Some sample_builtin)) =
   (\<lparr>manager = Some (Decorator 0), error_message = None\<rparr>,
    fst (snd (getMemorySearchManager collating_runtime initial_state ''main''
        (sample_qmd_resolved sample_config_a)
        (Inr (Some sample_primary)) (Inr None) (Inr (Some sample_builtin)))),
    []) \<and>
   backend sample_engram_resolved = ''engram'' \<and> truthy (engram sample_engram_resolved) \<and>
   EngramCreate \<in> set (snd (snd (getMemorySearchManager collating_runtime initial_state ''main''
     sample_engram_resolved (Inr None) (Inr None) (Inr (Some sample_builtin))))) \<and>
   getMemorySearchManager collating_runtime initial_state ''main'' sample_engram_resolved
     (Inr None) (Inr (Some sample_primary)) (Inr (Some sample_builtin)) =
   (\<lparr>manager = Some (Decorator (allocated initial_state)), error_message = None\<rparr>,
    initial_state\<lparr>store := (store initial_state)(allocated initial_state \<mapsto>
                     new_FallbackMemoryManager ''engram'' sample_primary None),
                  allocated := Suc (allocated initial_state)\<rparr>,
    [EngramCreate])"
proof -
  have s: "struct_eq (qmd (sample_qmd_resolved sample_config_a)) (qmd (sample_qmd_resolved sample_config_b))"
    by (simp add: sample_qmd_resolved_def sample_configs_struct_eq)
  have k: "keys_ordered collating_runtime (qmd (sample_qmd_resolved sample_config_a))"
    by (simp add: sample_qmd_resolved_def keys_ordered_sample_a)
  have b: "backend (sample_qmd_resolved sample_config_a) = ''qmd''"
    "backend (sample_qmd_resolved sample_config_b) = ''qmd''"
    by (simp_all add: sample_qmd_resolved_def)
  have e: "backend sample_engram_resolved = ''engram''" "truthy (engram sample_engram_resolved)"
    by (simp_all add: sample_engram_resolved_def)
  from qmd_handle_cached
         [where rt = collating_runtime and ?r1.0 = "sample_qmd_resolved sample_config_a"
            and ?r2.0 = "sample_qmd_resolved sample_config_b" and ms = initial_state
            and agentId = "''main''" and ?qc1.0 = "Inr (Some sample_primary)" and ?ec1.0 = "Inr None"
            and ?ig1.0 = "Inr (Some sample_builtin)" and d = 0
            and ?qc2.0 = "Inr (Some sample_primary)" and ?ec2.0 = "Inr None"
            and ?ig2.0 = "Inr (Some sample_builtin)"
            and r = sample_engram_resolved and qc = "Inr None" and ec = "Inr None"
            and ig = "Inr (Some sample_builtin)" and prim = sample_primary]
       s k b e
  show ?thesis by (simp add: collating_first_call)
qed


subsection \<open>C2: the one-way degrade\<close>





subsection \<open>C3: the eviction callback runs at most once\<close>

lemma stale_state_reached:
  "fst (snd (getMemorySearchManager sample_runtime
     (fst (call_on
        (fst (snd (getMemorySearchManager sample_runtime initial_state ''main''
           (sample_qmd_resolved sample_config_a)
           (Inr (Some sample_primary)) (Inr None) (Inr (Some sample_builtin)))))
        0 failing_search))
     ''main'' (sample_qmd_resolved sample_config_a)
     (Inr (Some sample_primary)) (Inr None) (Inr (Some sample_builtin)))) = stale_state"
proof -
  have k: "buildPrimaryCacheKey sample_runtime ''main'' ''qmd'' sample_config_a = sample_key"
    by (simp add: sample_key_def)
  have o: "onClose first_decorator = Some sample_key"
    by (simp add: first_decorator_def new_FallbackMemoryManager_def)
  have f: "snd (fmm_call first_decorator failing_search) =
     [Delegate ViaPrimary sample_primary (DSearch ''hello'' None),
       Delegate ViaPrimary sample_primary DClose,
       InvokeOnClose sample_key,
       InvokeFactory,
       Delegate ViaFallback sample_builtin (DSearch ''hello'' None)]"
    by (simp add: first_decorator_def failing_search_def new_FallbackMemoryManager_def
          sample_primary_def fmm_defs)
  show ?thesis
    unfolding sample_first_call k first_decorator_def[symmetric]
    by (simp add: call_on_Some f getMemorySearchManager_def qmd_branch_def allocate_def
          sample_qmd_resolved_def truthy_sample_config Let_def k first_decorator_def[symmetric]
          stale_state_def fun_upd_twist)
qed




subsection \<open>C6: the session key reaches the implementation that serves the call\<close>



subsection \<open>C9: a degraded search without a fallback\<close>

text \<open>
  C9, as stated: when the fallback cannot be constructed because the fallback factory fails
  or yields no handle, the call raises an error whose message is the recorded primary error;
  and a successful fallback handle is constructed at most once per instance. When the
  factory itself throws, \<^verbatim>\<open>ensureFallback\<close> has no handler and the factory's own error
  reaches the caller. And two degraded calls that overlap both find \<^verbatim>\<open>this.fallback\<close> unset
  before either has assigned it (the assignment comes after the \<^verbatim>\<open>await\<close> of the factory):
  both invoke the factory, each constructs a handle, and the second assignment replaces the
  first handle.
\<close>

theorem fallback_construction_counterexample:
  "primaryFailed degraded_decorator_no_fallback \<and>
   lastError degraded_decorator_no_fallback = Some ''qmd query failed'' \<and>
   fst (fmm_search degraded_decorator_no_fallback ''hello'' None (Inr [])
          (Inl ''embedding provider missing'') (Inr [sample_hit])) =
     Inl ''embedding provider missing'' \<and>
   snd (run_events (fresh degraded_decorator_no_fallback) two_constructions) =
     [InvokeFactory, InvokeFactory] \<and>
   fallback (decorator (fst (run_events (fresh degraded_decorator_no_fallback)
     [Begin (ICall (KSearch ''hello'' None)), Begin (ICall (KSearch ''again'' None)),
      Resume 0 (Built (Inr (Some sample_builtin)))]))) = Some sample_builtin \<and>
   fallback (decorator (fst (run_events (fresh degraded_decorator_no_fallback) two_constructions))) =
     Some second_builtin"
  by (simp add: degraded_decorator_no_fallback_def fmm_defs fresh_def two_constructions_def
        two_searches_def ensure_begin_eq)

text \<open>
  C9, amended: on a degraded decorator, a \<^verbatim>\<open>search\<close> whose fallback factory yields no handle
  raises an error whose message is the recorded primary error, and one whose factory throws
  raises the factory's error; in both cases nothing is memoized and the next call invokes
  the factory again. A handle that the factory returns is stored and serves the call. Once a
  handle is stored, no call invokes the factory, under any interleaving of the steps of
  overlapping calls, and a handle stays stored. Calls that overlap before a handle is stored
  each invoke the factory, so that more than one handle can be constructed; among calls that
  run one after the other a handle is constructed at most once and is reused by all later
  calls. A degraded decorator always has a recorded error.

  The first five parts are about a \<^verbatim>\<open>search\<close> that runs from its start to its end with no
  step of another call in between, and about such calls one after the other; the sixth says
  that this is what the steps of a \<^verbatim>\<open>search\<close> do when they run alone. The remaining parts
  are about single steps, which hold in whatever state the steps of other calls have left
  the decorator, and about arbitrary interleavings.
\<close>

theorem fallback_unavailable:
  "(primaryFailed this \<and> fallback this = None \<and> lastError this = Some message \<longrightarrow>
      fmm_search this query opts pa (Inr None) fb = (Inl message, this, [InvokeFactory]) \<and>
      fmm_search this query opts pa (Inl thrown) fb = (Inl thrown, this, [InvokeFactory]) \<and>
      fmm_search this query opts pa (Inr (Some h)) fb =
        (fb, this\<lparr>fallback := Some h\<rparr>, [InvokeFactory, Delegate ViaFallback h (DSearch query opts)])) \<and>
   (\<not> primaryFailed this \<and> fallback this = None \<longrightarrow>
      fst (fmm_search this query opts (Inl message) (Inr None) fb) = Inl message) \<and>
   (primaryFailed this \<and> fallback this = Some h \<longrightarrow>
      fmm_search this query opts pa fa fb =
        (fb, this, [Delegate ViaFallback h (DSearch query opts)])) \<and>
   (fallback this = Some h \<longrightarrow>
      fallback (fst (fmm_run this cs)) = Some h \<and> InvokeFactory \<notin> set (snd (fmm_run this cs))) \<and>
   (primaryFailed (fst (fmm_run (new_FallbackMemoryManager name prim cb) cs)) \<longrightarrow>
      lastError (fst (fmm_run (new_FallbackMemoryManager name prim cb) cs)) \<noteq> None) \<and>
   alone this (Search query opts pa fa fb) =
     (Finished (map_sum id VSearch (fst (fmm_search this query opts pa fa fb))),
      snd (fmm_search this query opts pa fa fb)) \<and>
   (fallback (decorator st) \<noteq> None \<longrightarrow>
      InvokeFactory \<notin> set (snd (run_events st evs)) \<and>
      fallback (decorator (fst (run_events st evs))) \<noteq> None) \<and>
   (primaryFailed this \<and> fallback this = None \<longrightarrow>
      run_events (fresh this) [Begin (ICall (KSearch query opts)), Begin (ICall (KSearch query' opts'))] =
        (\<lparr>decorator = this,
          in_flight = [Suspended (AwaitFactory (KSearch query opts)),
                       Suspended (AwaitFactory (KSearch query' opts'))]\<rparr>,
         [InvokeFactory, InvokeFactory])) \<and>
   resume this (AwaitFactory k) (Built (Inr None)) = (Suspended (AwaitEnsured k (Inr None)), this, []) \<and>
   resume this (AwaitFactory k) (Built (Inl thrown)) = (Suspended (AwaitEnsured k (Inl thrown)), this, []) \<and>
   resume this (AwaitEnsured (KSearch query opts) (Inr None)) r =
     (Finished (Inl (lastError_or this ''memory search unavailable'')), this, []) \<and>
   resume this (AwaitEnsured k (Inl thrown)) r = (Finished (Inl thrown), this, []) \<and>
   (primaryFailed (decorator (fst (run_events (fresh (new_FallbackMemoryManager name prim cb)) evs))) \<longrightarrow>
      lastError (decorator (fst (run_events (fresh (new_FallbackMemoryManager name prim cb)) evs))) \<noteq> None)"
proof (intro conjI impI)
  show "fallback (fst (fmm_run this cs)) = Some h" "InvokeFactory \<notin> set (snd (fmm_run this cs))"
    if "fallback this = Some h"
    using run_fallback_kept[OF that, of cs] by simp_all
  show "lastError (fst (fmm_run (new_FallbackMemoryManager name prim cb) cs)) \<noteq> None"
    if "primaryFailed (fst (fmm_run (new_FallbackMemoryManager name prim cb) cs))"
    using run_degraded_lastError[of "new_FallbackMemoryManager name prim cb" cs] that
    by (simp add: new_not_failed)
  show "alone this (Search query opts pa fa fb) =
     (Finished (map_sum id VSearch (fst (fmm_search this query opts pa fa fb))),
      snd (fmm_search this query opts pa fa fb))"
    by (rule search_alone)
  show "InvokeFactory \<notin> set (snd (run_events st evs))"
    "fallback (decorator (fst (run_events st evs))) \<noteq> None"
    if "fallback (decorator st) \<noteq> None"
    using events_fallback_stays[OF that, of evs] by simp_all
  show "lastError (decorator (fst (run_events (fresh (new_FallbackMemoryManager name prim cb)) evs))) \<noteq> None"
    if "primaryFailed (decorator (fst (run_events (fresh (new_FallbackMemoryManager name prim cb)) evs)))"
    using events_lastError[of "fresh (new_FallbackMemoryManager name prim cb)" evs] that
    by (simp add: fresh_def new_not_failed)
  show "run_events (fresh this) [Begin (ICall (KSearch query opts)), Begin (ICall (KSearch query' opts'))] =
        (\<lparr>decorator = this,
          in_flight = [Suspended (AwaitFactory (KSearch query opts)),
                       Suspended (AwaitFactory (KSearch query' opts'))]\<rparr>,
         [InvokeFactory, InvokeFactory])"
    if "primaryFailed this \<and> fallback this = None"
    using that by (simp add: fresh_def ensure_begin_eq)
qed (auto simp: fmm_defs lastError_or_def)

theorem fallback_unavailable_witness:
  "primaryFailed degraded_decorator_no_fallback \<and>
   fallback degraded_decorator_no_fallback = None \<and>
   lastError degraded_decorator_no_fallback = Some ''qmd query failed'' \<and>
   fmm_search degraded_decorator_no_fallback ''hello'' None (Inr []) (Inr None) (Inr [sample_hit]) =
     (Inl ''qmd query failed'', degraded_decorator_no_fallback, [InvokeFactory]) \<and>
   fmm_search degraded_decorator_no_fallback ''hello'' None (Inr []) (Inr (Some sample_builtin))
       (Inr [sample_hit]) =
     (Inr [sample_hit], degraded_decorator, [InvokeFactory,
        Delegate ViaFallback sample_builtin (DSearch ''hello'' None)]) \<and>
   fallback degraded_decorator = Some sample_builtin \<and>
   fallback (fst (fmm_run degraded_decorator later_calls)) = Some sample_builtin \<and>
   InvokeFactory \<notin> set (snd (fmm_run degraded_decorator later_calls)) \<and>
   \<not> primaryFailed sample_decorator \<and> fallback sample_decorator = None \<and>
   fst (fmm_search sample_decorator ''hello'' None (Inl ''qmd query failed'') (Inr None) (Inr [])) =
     Inl ''qmd query failed'' \<and>
   fallback (decorator (fresh degraded_decorator)) \<noteq> None \<and>
   InvokeFactory \<notin> set (snd (run_events (fresh degraded_decorator)
     (two_searches @ [Resume 1 Tick, Resume 0 Tick, Resume 0 (Answered (Inr (VSearch [sample_hit])))]))) \<and>
   run_events (fresh degraded_decorator_no_fallback) two_searches =
     (\<lparr>decorator = degraded_decorator_no_fallback,
       in_flight = [Suspended (AwaitFactory (KSearch ''hello'' None)),
                    Suspended (AwaitFactory (KSearch ''again'' None))]\<rparr>,
      [InvokeFactory, InvokeFactory]) \<and>
   primaryFailed (decorator (fst (run_events (fresh sample_decorator) degrading_search_begun))) \<and>
   lastError (decorator (fst (run_events (fresh sample_decorator) degrading_search_begun))) \<noteq> None \<and>
   primaryFailed (fst (fmm_run sample_decorator [failing_search])) \<and>
   lastError (fst (fmm_run sample_decorator [failing_search])) \<noteq> None"
proof -
  have a: "primaryFailed degraded_decorator_no_fallback" "fallback degraded_decorator_no_fallback = None"
    "lastError degraded_decorator_no_fallback = Some ''qmd query failed''"
    "degraded_decorator_no_fallback\<lparr>fallback := Some sample_builtin\<rparr> = degraded_decorator"
    by (simp_all add: degraded_decorator_no_fallback_def degraded_decorator_def)
  have b: "fallback degraded_decorator = Some sample_builtin" "primaryFailed degraded_decorator"
    "fallback (decorator (fresh degraded_decorator)) \<noteq> None"
    by (simp_all add: degraded_decorator_def fresh_def)
  have c: "\<not> primaryFailed sample_decorator" "fallback sample_decorator = None"
    by (simp_all add: sample_decorator_def new_FallbackMemoryManager_def)
  have w: "primaryFailed (decorator (fst (run_events (fresh sample_decorator) degrading_search_begun)))"
    unfolding sample_decorator_def degrading_search_begun_run
    by (simp add: new_FallbackMemoryManager_def)
  have p: "primaryFailed (fst (fmm_run sample_decorator [failing_search]))"
    by (simp add: failing_search_degrades degraded_decorator_def)
  from fallback_unavailable
         [where this = degraded_decorator_no_fallback and message = "''qmd query failed''"
            and query = "''hello''" and opts = None and pa = "Inr []" and fb = "Inr [sample_hit]"
            and h = sample_builtin and query' = "''again''" and opts' = None]
       fallback_unavailable
         [where this = degraded_decorator and h = sample_builtin and cs = later_calls
            and st = "fresh degraded_decorator"
            and evs = "two_searches @ [Resume 1 Tick, Resume 0 Tick,
                         Resume 0 (Answered (Inr (VSearch [sample_hit])))]"]
       fallback_unavailable
         [where this = sample_decorator and message = "''qmd query failed''" and query = "''hello''"
            and opts = None and fb = "Inr []"]
       fallback_unavailable
         [where name = "''qmd''" and prim = sample_primary and cb = "Some ''main:qmd:{}''"
            and evs = degrading_search_begun and cs = "[failing_search]"]
       a b c w p
  show ?thesis by (simp add: two_searches_def sample_decorator_def)
qed


end
